theory Spec2Isabelle
  imports Main "HOL-Library.Word" "HOL-Library.Sublist"
begin

unbundle bit_operations_syntax

section \<open>Parrot: a static file server that converts MML to HTML on request\<close>

text \<open>
  A shallow embedding of \<^verbatim>\<open>parrot/utils.py\<close>, \<^verbatim>\<open>parrot/mml_adapter.py\<close> and
  \<^verbatim>\<open>parrot/static.py\<close>.

  Conventions of the model.
  \<^item> A Python \<^verbatim>\<open>str\<close> is a \<open>string\<close> whose characters are the code points below 256;
    a Python \<^verbatim>\<open>bytes\<close> is a \<open>string\<close> whose characters are the bytes.
  \<^item> Library functions that are not part of the repository are parameters of the
    environment: the MIME table (\<^verbatim>\<open>mimetypes.guess_type\<close>), the SHA-1 digest
    (\<^verbatim>\<open>hashlib.sha1\<close>), the date formatter (\<^verbatim>\<open>strftime\<close>), the process runner
    (\<^verbatim>\<open>subprocess.run\<close>) and the user's converter module.
  \<^item> The filesystem has no symbolic links, so \<^verbatim>\<open>Path.resolve()\<close> is the lexical
    normalisation of the path; creating a temporary file succeeds and unlinking an
    existing file removes it.
  \<^item> An exception is a value. Its class is \<open>TypeError\<close>, \<open>Error\<close> (any other class
    derived from \<^verbatim>\<open>Exception\<close>) or \<open>Exit\<close> (a \<^verbatim>\<open>BaseException\<close> that is not an
    \<^verbatim>\<open>Exception\<close>: \<^verbatim>\<open>SystemExit\<close>, \<^verbatim>\<open>KeyboardInterrupt\<close>). An exception that the
    converter module raises also says what \<^verbatim>\<open>str()\<close> of it does, since the handlers
    of the adapter format it.
  \<^item> \<^verbatim>\<open>print\<close> itself does not fail: the converter module leaves \<^verbatim>\<open>sys.stdout\<close> as
    it is.
\<close>

subsection \<open>Python values\<close>

datatype exc = TypeError | Error | Exit

text \<open>\<^verbatim>\<open>except Exception\<close> catches everything but \<open>Exit\<close>.\<close>

definition is_Exception :: "exc \<Rightarrow> bool" where
  "is_Exception e = (e \<noteq> Exit)"

text \<open>
  An exception raised by the code of the converter module: its class, and the class of
  the exception that \<^verbatim>\<open>str(e)\<close> raises, when the \<^verbatim>\<open>__str__\<close> of the exception raises
  one (\<open>None\<close> when \<^verbatim>\<open>str(e)\<close> returns).
\<close>

datatype raised = Raised (cls: exc) (str_raises: "exc option")

text \<open>The value a converter function returns: a \<^verbatim>\<open>str\<close>, \<^verbatim>\<open>None\<close>, or any other object.\<close>

datatype pyval = PStr string | PNone | PObj

text \<open>
  \<^verbatim>\<open>str.isspace\<close> on the code points below 256: TAB, LF, VT, FF, CR, the separators
  0x1C to 0x1F, space, NEL (0x85) and the no-break space (0xA0).
\<close>

definition isspace :: "char \<Rightarrow> bool" where
  "isspace c = (let n = (of_char c :: nat) in
     (9 \<le> n \<and> n \<le> 13) \<or> (28 \<le> n \<and> n \<le> 32) \<or> n = 133 \<or> n = 160)"

definition strip :: "string \<Rightarrow> string" where
  "strip s = rev (dropWhile isspace (rev (dropWhile isspace s)))"

definition lstrip_slash :: "string \<Rightarrow> string" where
  "lstrip_slash s = dropWhile (\<lambda>c. c = CHR ''/'') s"

text \<open>\<^verbatim>\<open>data and data.strip()\<close>, as a truth value.\<close>

definition nonblank :: "string \<Rightarrow> bool" where
  "nonblank s = (s \<noteq> [] \<and> strip s \<noteq> [])"

subsection \<open>utils.py\<close>

text \<open>
  \<^verbatim>\<open>guess_mime_type\<close>: the first component of \<^verbatim>\<open>mimetypes.guess_type(path)\<close>, or the
  fallback when that is \<^verbatim>\<open>None\<close> or the empty string (\<^verbatim>\<open>mime or ...\<close>). The MIME
  table is the parameter \<open>gt\<close>.
\<close>

definition guess_mime_type :: "(string \<Rightarrow> string option) \<Rightarrow> string \<Rightarrow> string" where
  "guess_mime_type gt path =
     (case gt path of
        None \<Rightarrow> ''application/octet-stream''
      | Some mime \<Rightarrow> if mime = [] then ''application/octet-stream'' else mime)"

text \<open>
  \<^verbatim>\<open>compute_etag_bytes\<close>: the hexadecimal form of the SHA-1 digest of the data. The
  digest function is the parameter \<open>sha1\<close>; \<^verbatim>\<open>hexdigest\<close> writes its 160 bits as 40
  lower-case hexadecimal digits, most significant first.
\<close>

definition hex_digit :: "nat \<Rightarrow> char" where
  "hex_digit n = ''0123456789abcdef'' ! n"

definition hexdigest :: "160 word \<Rightarrow> string" where
  "hexdigest d = map (\<lambda>i. hex_digit (unat (drop_bit (4 * (39 - i)) d AND 15))) [0..<40]"

definition compute_etag_bytes :: "(string \<Rightarrow> 160 word) \<Rightarrow> string \<Rightarrow> string" where
  "compute_etag_bytes sha1 data = hexdigest (sha1 data)"

subsection \<open>The filesystem and the environment\<close>

text \<open>
  A path is the list of its components below \<^verbatim>\<open>/\<close>. A node is a regular file with its
  bytes or a directory with the names \<^verbatim>\<open>iterdir\<close> yields.
\<close>

datatype node = File string | Dir "string list"

type_synonym path = "string list"

type_synonym datetime = int

text \<open>
  What a call of a converter function does: it raises or returns a value, and it may
  leave the temporary output file untouched, delete it, or write bytes to it. A
  function of the module is a map from the argument list to that behaviour.

  What \<^verbatim>\<open>getattr(module, name, None)\<close> gives: the attribute is absent (also when a
  \<^verbatim>\<open>__getattr__\<close> of the module raises \<^verbatim>\<open>AttributeError\<close>), it is not callable, it is
  such a function, or a \<^verbatim>\<open>__getattr__\<close> of the module raises an exception of another
  class, which \<^verbatim>\<open>getattr\<close> does not catch.
\<close>

datatype file_effect = Untouched | Deleted | Written string

type_synonym pyfun = "string list \<Rightarrow> (raised + pyval) \<times> file_effect"

datatype attr = Absent | NotCallable | Callable pyfun | GetattrRaises exc

type_synonym pymodule = "string \<Rightarrow> attr"

text \<open>
  \<^verbatim>\<open>subprocess.run(cmd, capture_output=True, check=False, text=True, timeout=10)\<close>
  raises (the timeout, a spawn failure, undecodable output) or completes with a return
  code, the standard output and the standard error.
\<close>

datatype proc = ProcRaises | Completed int string string

record env =
  fs :: "path \<Rightarrow> node option"
  getmtime :: "path \<Rightarrow> datetime option"
  now :: datetime
  cwd :: path
  converter_path :: path
  exec_module :: "raised + pymodule"
  subprocess_run :: "string list \<Rightarrow> proc"
  sys_executable :: string
  guess_type :: "string \<Rightarrow> string option"
  sha1 :: "string \<Rightarrow> 160 word"
  strftime :: "datetime \<Rightarrow> string"

text \<open>What the adapter prints, one entry for each \<^verbatim>\<open>print\<close> of the source.\<close>

datatype log_entry =
    ConverterNotFound
  | LoadFailed
  | ConverterStderr "string list" string
  | SubprocessFailed "string list"
  | CallError string
  | ContentFailed

text \<open>
  The mutable world: the temporary files (by number, with their bytes), the number the
  next temporary file gets, how often \<^verbatim>\<open>_load_converter_module\<close> was called, how often
  it executed the module, and the log.
\<close>

record world =
  tmp_files :: "nat \<Rightarrow> string option"
  next_tmp :: nat
  load_calls :: nat
  module_execs :: nat
  log :: "log_entry list"

definition say :: "log_entry \<Rightarrow> world \<Rightarrow> world" where
  "say e w = w\<lparr>log := log w @ [e]\<rparr>"

subsection \<open>Paths\<close>

fun split_slash :: "string \<Rightarrow> string list" where
  "split_slash [] = [[]]"
| "split_slash (c # cs) =
     (if c = CHR ''/'' then [] # split_slash cs
      else (case split_slash cs of [] \<Rightarrow> [[c]] | x # xs \<Rightarrow> (c # x) # xs))"

text \<open>
  Walking the components from a directory: empty components and \<^verbatim>\<open>.\<close> are skipped,
  \<^verbatim>\<open>..\<close> goes to the parent, and the parent of \<^verbatim>\<open>/\<close> is \<^verbatim>\<open>/\<close>.
\<close>

fun walk :: "path \<Rightarrow> string list \<Rightarrow> path" where
  "walk acc [] = acc"
| "walk acc (x # xs) =
     (if x = [] \<or> x = ''.'' then walk acc xs
      else if x = ''..'' then walk (butlast acc) xs
      else walk (acc @ [x]) xs)"

definition is_absolute :: "string \<Rightarrow> bool" where
  "is_absolute s = (case s of [] \<Rightarrow> False | c # _ \<Rightarrow> c = CHR ''/'')"

text \<open>\<^verbatim>\<open>(base / s).resolve()\<close> for a resolved \<open>base\<close>: an absolute \<open>s\<close> replaces the base.\<close>

definition resolve_from :: "path \<Rightarrow> string \<Rightarrow> path" where
  "resolve_from base s = walk (if is_absolute s then [] else base) (split_slash s)"

text \<open>\<^verbatim>\<open>str(path)\<close>.\<close>

definition path_str :: "path \<Rightarrow> string" where
  "path_str ps = (if ps = [] then ''/'' else concat (map (\<lambda>p. CHR ''/'' # p) ps))"

definition startswith :: "string \<Rightarrow> string \<Rightarrow> bool" where
  "startswith s p = (take (length p) s = p)"

definition name_of :: "path \<Rightarrow> string" where
  "name_of ps = (if ps = [] then [] else last ps)"

text \<open>
  \<^verbatim>\<open>Path.suffix\<close>: with \<open>i\<close> the place of the last dot of the name, the suffix is
  \<^verbatim>\<open>name[i:]\<close> when \<^verbatim>\<open>0 < i < len(name) - 1\<close> and empty otherwise.
\<close>

definition suffix_of_name :: "string \<Rightarrow> string" where
  "suffix_of_name name =
     (let ext = rev (takeWhile (\<lambda>c. c \<noteq> CHR ''.'') (rev name))
      in if CHR ''.'' \<in> set name \<and> ext \<noteq> [] \<and> Suc (length ext) < length name
         then CHR ''.'' # ext else [])"

definition suffix :: "path \<Rightarrow> string" where
  "suffix ps = suffix_of_name (name_of ps)"

text \<open>\<^verbatim>\<open>Path.with_suffix\<close>; \<open>None\<close> is the \<^verbatim>\<open>ValueError\<close> of a path with an empty name.\<close>

definition with_suffix :: "path \<Rightarrow> string \<Rightarrow> path option" where
  "with_suffix ps ext =
     (let name = name_of ps
      in if name = [] then None
         else Some (butlast ps @ [take (length name - length (suffix ps)) name @ ext]))"

definition exists :: "env \<Rightarrow> path \<Rightarrow> bool" where
  "exists env p = (fs env p \<noteq> None)"

definition is_dir :: "env \<Rightarrow> path \<Rightarrow> bool" where
  "is_dir env p = (case fs env p of Some (Dir _) \<Rightarrow> True | _ \<Rightarrow> False)"

definition is_file :: "env \<Rightarrow> path \<Rightarrow> bool" where
  "is_file env p = (case fs env p of Some (File _) \<Rightarrow> True | _ \<Rightarrow> False)"

subsection \<open>Text files\<close>

text \<open>
  UTF-8 on the code points below 256. Decoding gives \<open>None\<close> for the bytes Python
  rejects with \<^verbatim>\<open>UnicodeDecodeError\<close> and for code points outside the model.
\<close>

definition encode_utf8 :: "string \<Rightarrow> string" where
  "encode_utf8 s = concat (map (\<lambda>c. let n = (of_char c :: nat) in
     if n < 128 then [c] else [char_of (192 + n div 64), char_of (128 + n mod 64)]) s)"

fun decode_utf8 :: "string \<Rightarrow> string option" where
  "decode_utf8 [] = Some []"
| "decode_utf8 [c] = (if (of_char c :: nat) < 128 then Some [c] else None)"
| "decode_utf8 (c # d # ds) =
     (let n = (of_char c :: nat); m = (of_char d :: nat)
      in if n < 128 then map_option ((#) c) (decode_utf8 (d # ds))
         else if (n = 194 \<or> n = 195) \<and> 128 \<le> m \<and> m < 192
         then map_option ((#) (char_of ((n - 192) * 64 + (m - 128)))) (decode_utf8 ds)
         else None)"

text \<open>Text mode translates \<^verbatim>\<open>\r\n\<close> and \<^verbatim>\<open>\r\<close> to \<^verbatim>\<open>\n\<close>.\<close>

fun universal_newlines :: "string \<Rightarrow> string" where
  "universal_newlines [] = []"
| "universal_newlines [c] = (if c = CHR 0x0D then [CHR 0x0A] else [c])"
| "universal_newlines (c # d # ds) =
     (if c = CHR 0x0D \<and> d = CHR 0x0A then CHR 0x0A # universal_newlines ds
      else if c = CHR 0x0D then CHR 0x0A # universal_newlines (d # ds)
      else c # universal_newlines (d # ds))"

definition read_text :: "string \<Rightarrow> string option" where
  "read_text bytes = map_option universal_newlines (decode_utf8 bytes)"

text \<open>
  \<^verbatim>\<open>open(path, "r", encoding="utf-8").read()\<close> on a path given as a string; \<open>None\<close>
  is any exception it raises (no such file, a directory, undecodable bytes).
\<close>

definition open_read_text :: "env \<Rightarrow> string \<Rightarrow> string option" where
  "open_read_text env s =
     (case fs env (resolve_from (cwd env) s) of
        Some (File bytes) \<Rightarrow> read_text bytes
      | _ \<Rightarrow> None)"

subsection \<open>mml_adapter.py\<close>

text \<open>
  A handler \<^verbatim>\<open>except Exception as e: print(f"... {e}")\<close> (lines 26 to 28, 110 to 112
  and 131 to 133) at the exception \<open>e\<close>. An exception that is not an \<^verbatim>\<open>Exception\<close> is
  not caught and goes on. Otherwise the handler formats \<open>e\<close>, which calls \<^verbatim>\<open>str(e)\<close>:
  when that raises, the new exception leaves the handler; when it returns, the entry
  is printed and no exception is left. The result is the exception that goes on, if
  any.
\<close>

definition except_Exception :: "log_entry \<Rightarrow> raised \<Rightarrow> world \<Rightarrow> exc option \<times> world" where
  "except_Exception entry e w =
     (if is_Exception (cls e)
      then (case str_raises e of
              None \<Rightarrow> (None, say entry w)
            | Some e' \<Rightarrow> (Some e', w))
      else (Some (cls e), w))"

text \<open>
  \<^verbatim>\<open>_load_converter_module\<close>: nothing is loaded when the converter file is missing;
  otherwise the module is executed, and an \<^verbatim>\<open>Exception\<close> of the execution is handled
  and gives \<^verbatim>\<open>None\<close>. Every call is counted in \<open>load_calls\<close> and every execution of
  the module in \<open>module_execs\<close>.
\<close>

definition load_converter_module :: "env \<Rightarrow> world \<Rightarrow> (exc + pymodule option) \<times> world" where
  "load_converter_module env w =
     (let w1 = w\<lparr>load_calls := Suc (load_calls w)\<rparr>
      in if \<not> exists env (converter_path env) then (Inr None, say ConverterNotFound w1)
         else (let w2 = w1\<lparr>module_execs := Suc (module_execs w1)\<rparr>
               in case exec_module env of
                    Inr m \<Rightarrow> (Inr (Some m), w2)
                  | Inl e \<Rightarrow>
                      (case except_Exception LoadFailed e w2 of
                         (None, w3) \<Rightarrow> (Inr None, w3)
                       | (Some e', w3) \<Rightarrow> (Inl e', w3))))"

definition attempts :: "env \<Rightarrow> string \<Rightarrow> string list list" where
  "attempts env mml_path =
     [[sys_executable env, path_str (converter_path env), mml_path, ''--stdout''],
      [sys_executable env, path_str (converter_path env), mml_path, ''-''],
      [sys_executable env, path_str (converter_path env), mml_path]]"

text \<open>The loop of \<^verbatim>\<open>_run_subprocess_and_capture\<close> over the commands still to try.\<close>

fun run_attempts :: "env \<Rightarrow> string list list \<Rightarrow> world \<Rightarrow> string option \<times> world" where
  "run_attempts env [] w = (None, w)"
| "run_attempts env (cmd # cmds) w =
     (case subprocess_run env cmd of
        ProcRaises \<Rightarrow> run_attempts env cmds (say (SubprocessFailed cmd) w)
      | Completed returncode out err \<Rightarrow>
          if returncode = 0 \<and> nonblank out then (Some out, w)
          else run_attempts env cmds
                 (if err \<noteq> [] then say (ConverterStderr cmd err) w else w))"

definition run_subprocess_and_capture :: "env \<Rightarrow> string \<Rightarrow> world \<Rightarrow> string option \<times> world" where
  "run_subprocess_and_capture env mml_path w = run_attempts env (attempts env mml_path) w"

text \<open>The temporary file: its name, its creation (empty), what a call does to it, its removal.\<close>

definition tmp_name :: "nat \<Rightarrow> string" where
  "tmp_name n = ''/tmp/tmp'' @ replicate n (CHR ''x'') @ ''.html''"

definition create_tmp :: "world \<Rightarrow> nat \<times> world" where
  "create_tmp w =
     (next_tmp w, w\<lparr>tmp_files := (tmp_files w)(next_tmp w \<mapsto> []), next_tmp := Suc (next_tmp w)\<rparr>)"

definition apply_effect :: "nat \<Rightarrow> file_effect \<Rightarrow> world \<Rightarrow> world" where
  "apply_effect n eff w =
     (case eff of
        Untouched \<Rightarrow> w
      | Deleted \<Rightarrow> w\<lparr>tmp_files := (tmp_files w)(n := None)\<rparr>
      | Written bytes \<Rightarrow> w\<lparr>tmp_files := (tmp_files w)(n \<mapsto> bytes)\<rparr>)"

text \<open>\<^verbatim>\<open>Path(tmp_path).unlink()\<close> in \<^verbatim>\<open>try ... except Exception: pass\<close>.\<close>

definition unlink_tmp :: "nat \<Rightarrow> world \<Rightarrow> world" where
  "unlink_tmp n w =
     (case tmp_files w n of
        None \<Rightarrow> w
      | Some _ \<Rightarrow> w\<lparr>tmp_files := (tmp_files w)(n := None)\<rparr>)"

text \<open>
  Lines 86 to 94: the call with \<^verbatim>\<open>(input, out_path)\<close>, on \<^verbatim>\<open>TypeError\<close> the call with
  \<^verbatim>\<open>(input,)\<close>, on a second \<^verbatim>\<open>TypeError\<close> the value \<^verbatim>\<open>None\<close>.
\<close>

definition is_TypeError :: "raised + pyval \<Rightarrow> bool" where
  "is_TypeError r = (case r of Inl e \<Rightarrow> cls e = TypeError | Inr v \<Rightarrow> False)"

definition call_fn :: "pyfun \<Rightarrow> string \<Rightarrow> nat \<Rightarrow> world \<Rightarrow> (raised + pyval) \<times> world" where
  "call_fn fn mml_path n w =
     (let (r, eff) = fn [mml_path, tmp_name n];
          w1 = apply_effect n eff w
      in if is_TypeError r
         then (let (r', eff') = fn [mml_path];
                   w2 = apply_effect n eff' w1
               in if is_TypeError r' then (Inr PNone, w2) else (r', w2))
         else (r, w1))"

text \<open>How one round of the loop over the candidates ends.\<close>

datatype flow = Return string | Next | Raise exc

text \<open>Lines 100 to 108: the content of the temporary file, when it can be read and is not blank.\<close>

definition read_tmp :: "nat \<Rightarrow> world \<Rightarrow> flow" where
  "read_tmp n w =
     (case tmp_files w n of
        None \<Rightarrow> Next
      | Some bytes \<Rightarrow>
          (case read_text bytes of
             None \<Rightarrow> Next
           | Some data \<Rightarrow> if nonblank data then Return data else Next))"

text \<open>Lines 96 to 108.\<close>

fun use_result :: "pyval \<Rightarrow> nat \<Rightarrow> world \<Rightarrow> flow" where
  "use_result (PStr s) n w = (if strip s \<noteq> [] then Return s else read_tmp n w)"
| "use_result PNone n w = read_tmp n w"
| "use_result PObj n w = read_tmp n w"

text \<open>
  Lines 80 to 120, one round of the loop for a callable candidate: the \<^verbatim>\<open>try\<close> block,
  the handler of \<^verbatim>\<open>Exception\<close>, and the \<^verbatim>\<open>finally\<close> clause that unlinks the file,
  also when an exception leaves the handler.
\<close>

definition try_candidate :: "string \<Rightarrow> pyfun \<Rightarrow> string \<Rightarrow> world \<Rightarrow> flow \<times> world" where
  "try_candidate fn_name fn mml_path w =
     (let (n, w1) = create_tmp w;
          (r, w2) = call_fn fn mml_path n w1;
          (out, w3) = (case r of
                         Inr ret \<Rightarrow> (use_result ret n w2, w2)
                       | Inl e \<Rightarrow>
                           (case except_Exception (CallError fn_name) e w2 of
                              (None, w') \<Rightarrow> (Next, w')
                            | (Some e', w') \<Rightarrow> (Raise e', w')))
      in (out, unlink_tmp n w3))"

definition file_fn_candidates :: "string list" where
  "file_fn_candidates =
     [''compile_mml_to_html'', ''convert_file'', ''convert_mml_to_html'', ''convert'']"

text \<open>
  Lines 73 to 120, the loop over the names still to try. The lookup of line 74 is in no
  \<^verbatim>\<open>try\<close>, so an exception of the lookup leaves the adapter.
\<close>

fun try_candidates :: "pymodule \<Rightarrow> string list \<Rightarrow> string \<Rightarrow> world \<Rightarrow> flow \<times> world" where
  "try_candidates m [] mml_path w = (Next, w)"
| "try_candidates m (fn_name # rest) mml_path w =
     (case m fn_name of
        Callable fn \<Rightarrow>
          (let (out, w') = try_candidate fn_name fn mml_path w
           in case out of
                Next \<Rightarrow> try_candidates m rest mml_path w'
              | Return s \<Rightarrow> (Return s, w')
              | Raise e \<Rightarrow> (Raise e, w'))
      | Absent \<Rightarrow> try_candidates m rest mml_path w
      | NotCallable \<Rightarrow> try_candidates m rest mml_path w
      | GetattrRaises e \<Rightarrow> (Raise e, w))"

text \<open>
  Lines 123 to 133: the content-based converter. The lookup of line 123 comes before
  the \<^verbatim>\<open>try\<close> of line 125.
\<close>

definition content_fallback :: "env \<Rightarrow> pymodule \<Rightarrow> string \<Rightarrow> world \<Rightarrow> flow \<times> world" where
  "content_fallback env m mml_path w =
     (case m ''convert_mml_to_html'' of
        Callable content_fn \<Rightarrow>
          (case open_read_text env mml_path of
             None \<Rightarrow> (Next, say ContentFailed w)
           | Some mml_content \<Rightarrow>
               (case fst (content_fn [mml_content]) of
                  Inr (PStr s) \<Rightarrow> if strip s \<noteq> [] then (Return s, w) else (Next, w)
                | Inr PNone \<Rightarrow> (Next, w)
                | Inr PObj \<Rightarrow> (Next, w)
                | Inl e \<Rightarrow>
                    (case except_Exception ContentFailed e w of
                       (None, w') \<Rightarrow> (Next, w')
                     | (Some e', w') \<Rightarrow> (Raise e', w'))))
      | Absent \<Rightarrow> (Next, w)
      | NotCallable \<Rightarrow> (Next, w)
      | GetattrRaises e \<Rightarrow> (Raise e, w))"

text \<open>
  \<^verbatim>\<open>convert_mml_file_to_html_string\<close>: \<open>Inr (Some html)\<close> and \<open>Inr None\<close> are its return
  values, \<open>Inl e\<close> is the exception \<open>e\<close> leaving it.
\<close>

definition convert_mml_file_to_html_string ::
  "env \<Rightarrow> string \<Rightarrow> world \<Rightarrow> (exc + string option) \<times> world" where
  "convert_mml_file_to_html_string env mml_path w =
     (case load_converter_module env w of
        (Inl e, w1) \<Rightarrow> (Inl e, w1)
      | (Inr None, w1) \<Rightarrow>
          (let (r, w2) = run_subprocess_and_capture env mml_path w1 in (Inr r, w2))
      | (Inr (Some m), w1) \<Rightarrow>
          (case try_candidates m file_fn_candidates mml_path w1 of
             (Return s, w2) \<Rightarrow> (Inr (Some s), w2)
           | (Raise e, w2) \<Rightarrow> (Inl e, w2)
           | (Next, w2) \<Rightarrow>
               (case content_fallback env m mml_path w2 of
                  (Return s, w3) \<Rightarrow> (Inr (Some s), w3)
                | (Raise e, w3) \<Rightarrow> (Inl e, w3)
                | (Next, w3) \<Rightarrow>
                    (let (r, w4) = run_subprocess_and_capture env mml_path w3
                     in (Inr r, w4)))))"

text \<open>A process that converts one path after the other, whatever each conversion gives.\<close>

fun convert_all :: "env \<Rightarrow> string list \<Rightarrow> world \<Rightarrow> world" where
  "convert_all env [] w = w"
| "convert_all env (p # ps) w = convert_all env ps (snd (convert_mml_file_to_html_string env p w))"

subsection \<open>static.py\<close>

record request =
  match_tail :: "string option"
  req_path :: string
  if_none_match :: "string option"

text \<open>
  \<^verbatim>\<open>web.Response\<close> as it is constructed: the status (200 when not given), the headers
  passed, the \<^verbatim>\<open>text\<close> or \<^verbatim>\<open>body\<close> argument, and the \<^verbatim>\<open>content_type\<close> argument.
\<close>

datatype payload = NoBody | Text string | Body string

record response =
  status :: nat
  headers :: "(string \<times> string) list"
  payload :: payload
  content_type :: "string option"

definition forbidden :: response where
  "forbidden = \<lparr>status = 403, headers = [], payload = Text ''Forbidden'', content_type = None\<rparr>"

definition not_found :: response where
  "not_found = \<lparr>status = 404, headers = [], payload = Text ''Not Found'', content_type = None\<rparr>"

definition conversion_failed :: response where
  "conversion_failed =
     \<lparr>status = 500, headers = [], payload = Text ''MML conversion failed'', content_type = None\<rparr>"

text \<open>\<^verbatim>\<open>file_mtime\<close>: the modification time, \<open>None\<close> when reading it raises.\<close>

definition file_mtime :: "env \<Rightarrow> path \<Rightarrow> datetime option" where
  "file_mtime env p = getmtime env p"

definition mml_headers :: "env \<Rightarrow> path \<Rightarrow> string \<Rightarrow> (string \<times> string) list" where
  "mml_headers env mml_path etag =
     [(''Content-Type'', ''text/html; charset=utf-8''),
      (''ETag'', etag),
      (''Cache-Control'', ''no-cache''),
      (''Last-Modified'',
         strftime env (case file_mtime env mml_path of Some t \<Rightarrow> t | None \<Rightarrow> now env))]"

definition serve_mml :: "env \<Rightarrow> path \<Rightarrow> request \<Rightarrow> world \<Rightarrow> (exc + response) \<times> world" where
  "serve_mml env mml_path req w =
     (case convert_mml_file_to_html_string env (path_str mml_path) w of
        (Inl e, w') \<Rightarrow> (Inl e, w')
      | (Inr None, w') \<Rightarrow> (Inr conversion_failed, w')
      | (Inr (Some html), w') \<Rightarrow>
          (let body_bytes = encode_utf8 html;
               etag = compute_etag_bytes (sha1 env) body_bytes;
               hdrs = mml_headers env mml_path etag
           in if (case if_none_match req of None \<Rightarrow> False | Some v \<Rightarrow> v \<noteq> [] \<and> v = etag)
              then (Inr \<lparr>status = 304, headers = hdrs, payload = NoBody, content_type = None\<rparr>, w')
              else (Inr \<lparr>status = 200, headers = hdrs, payload = Body body_bytes,
                         content_type = None\<rparr>, w')))"

definition file_headers :: "string \<Rightarrow> string \<Rightarrow> (string \<times> string) list" where
  "file_headers mime etag =
     [(''Content-Type'', mime), (''ETag'', etag), (''Cache-Control'', ''public, max-age=60'')]"

text \<open>\<^verbatim>\<open>_serve_file\<close>; reading anything but a regular file raises.\<close>

definition serve_file :: "env \<Rightarrow> path \<Rightarrow> request \<Rightarrow> exc + response" where
  "serve_file env p req =
     (let mime = guess_mime_type (guess_type env) (path_str p)
      in case fs env p of
           Some (File body_bytes) \<Rightarrow>
             (let etag = compute_etag_bytes (sha1 env) body_bytes;
                  hdrs = file_headers mime etag
              in if if_none_match req = Some etag
                 then Inr \<lparr>status = 304, headers = hdrs, payload = NoBody, content_type = None\<rparr>
                 else Inr \<lparr>status = 200, headers = hdrs, payload = Body body_bytes,
                           content_type = None\<rparr>)
         | Some (Dir names) \<Rightarrow> Inl Error
         | None \<Rightarrow> Inl Error)"

text \<open>Lines 44 to 50: the index of a directory; \<open>None\<close> when the directory has none.\<close>

definition index_probe :: "env \<Rightarrow> path \<Rightarrow> path option" where
  "index_probe env joined =
     (if is_dir env joined then
        (if exists env (joined @ [''index.mml'']) then Some (joined @ [''index.mml''])
         else if exists env (joined @ [''index.html'']) then Some (joined @ [''index.html''])
         else None)
      else Some joined)"

text \<open>Lines 52 to 58: the listing of a directory.\<close>

definition listing :: "env \<Rightarrow> request \<Rightarrow> path \<Rightarrow> response" where
  "listing env req joined =
     (let items = map (\<lambda>name. name @ (if is_dir env (joined @ [name]) then ''/'' else []))
                      (case fs env joined of Some (Dir names) \<Rightarrow> names | _ \<Rightarrow> [])
      in \<lparr>status = 200, headers = [],
          payload = Text (''<html><body><h1>Directory listing for '' @ req_path req @
                          ''</h1><ul>'' @
                          concat (map (\<lambda>name. ''<li><a href='' @ [CHR 0x22] @ name @ [CHR 0x22] @
                                               ''>'' @ name @ ''</a></li>'') items) @
                          ''</ul></body></html>''),
          content_type = Some ''text/html''\<rparr>)"

text \<open>
  Lines 69 to 83: a path with the suffix \<^verbatim>\<open>.mml\<close> that exists is converted, a regular
  file is served, and otherwise the siblings \<^verbatim>\<open>.mml\<close> and \<^verbatim>\<open>.html\<close> are probed.
\<close>

definition serve_resolved :: "env \<Rightarrow> path \<Rightarrow> request \<Rightarrow> world \<Rightarrow> (exc + response) \<times> world" where
  "serve_resolved env joined req w =
     (if suffix joined = ''.mml'' \<and> exists env joined then serve_mml env joined req w
      else if exists env joined \<and> is_file env joined then (serve_file env joined req, w)
      else (case with_suffix joined ''.mml'' of
              None \<Rightarrow> (Inl Error, w)
            | Some p \<Rightarrow>
                if exists env p then serve_mml env p req w
                else (case with_suffix joined ''.html'' of
                        None \<Rightarrow> (Inl Error, w)
                      | Some p' \<Rightarrow>
                          if exists env p' then (serve_file env p' req, w)
                          else (Inr not_found, w))))"

text \<open>Lines 61 to 67: a path without suffix is probed with \<^verbatim>\<open>.mml\<close>, then \<^verbatim>\<open>.html\<close>.\<close>

definition bare_probe :: "env \<Rightarrow> path \<Rightarrow> request \<Rightarrow> world \<Rightarrow> (exc + response) \<times> world" where
  "bare_probe env joined req w =
     (if suffix joined = [] then
        (case with_suffix joined ''.mml'' of
           None \<Rightarrow> (Inl Error, w)
         | Some mml_try \<Rightarrow>
             (case with_suffix joined ''.html'' of
                None \<Rightarrow> (Inl Error, w)
              | Some html_try \<Rightarrow>
                  if exists env mml_try then serve_mml env mml_try req w
                  else if exists env html_try then serve_resolved env html_try req w
                  else serve_resolved env joined req w))
      else serve_resolved env joined req w)"

text \<open>Lines 34 to 36: the path relative to the root that the request asks for.\<close>

definition rel_url_path :: "request \<Rightarrow> string" where
  "rel_url_path req =
     (let tail = (case match_tail req of None \<Rightarrow> [] | Some t \<Rightarrow> t)
      in if tail = [] then lstrip_slash (req_path req) else tail)"

definition handle_static_request ::
  "env \<Rightarrow> request \<Rightarrow> string \<Rightarrow> bool \<Rightarrow> world \<Rightarrow> (exc + response) \<times> world" where
  "handle_static_request env req filesystem_root enable_dir_listing w =
     (let root = resolve_from (cwd env) filesystem_root;
          joined = resolve_from root (rel_url_path req)
      in if \<not> startswith (path_str joined) (path_str root) then (Inr forbidden, w)
         else (case index_probe env joined of
                 None \<Rightarrow> if enable_dir_listing then (Inr (listing env req joined), w)
                         else (Inr not_found, w)
               | Some joined' \<Rightarrow> bare_probe env joined' req w))"

subsection \<open>Concrete environments\<close>

definition world0 :: world where
  "world0 = \<lparr>tmp_files = (\<lambda>_. None), next_tmp = 0, load_calls = 0, module_execs = 0, log = []\<rparr>"

text \<open>
  An installation below \<^verbatim>\<open>/opt/parrot\<close> with the given files, converter module and
  process behaviour. The digest stands in for SHA-1 and the formatter for
  \<^verbatim>\<open>strftime\<close>.
\<close>

definition stub_env ::
  "(path \<Rightarrow> node option) \<Rightarrow> (raised + pymodule) \<Rightarrow> (string list \<Rightarrow> proc) \<Rightarrow> env" where
  "stub_env files loaded run =
     \<lparr>fs = files,
      getmtime = (\<lambda>p. if p = [''srv'', ''www'', ''page.mml''] then Some 0 else None),
      now = 86400, cwd = [''srv'', ''www''],
      converter_path = [''opt'', ''parrot'', ''mml_converter.py''],
      exec_module = loaded, subprocess_run = run,
      sys_executable = ''/usr/bin/python3'',
      guess_type = (\<lambda>s. if startswith (rev s) (rev ''.html'') then Some ''text/html''
                         else if startswith (rev s) (rev ''.txt'') then Some ''text/plain''
                         else None),
      sha1 = (\<lambda>data. of_nat (length data)),
      strftime = (\<lambda>t. if t = 86400 then ''Fri, 02 Jan 1970 00:00:00 GMT''
                       else ''Thu, 01 Jan 1970 00:00:00 GMT'')\<rparr>"

definition no_process :: "string list \<Rightarrow> proc" where
  "no_process cmd = ProcRaises"

text \<open>A site whose root \<^verbatim>\<open>/srv/www\<close> has a sibling directory \<^verbatim>\<open>/srv/www-secret\<close>.\<close>

definition sibling_fs :: "path \<Rightarrow> node option" where
  "sibling_fs =
     [[''srv''] \<mapsto> Dir [''www'', ''www-secret''],
      [''srv'', ''www''] \<mapsto> Dir [],
      [''srv'', ''www-secret''] \<mapsto> Dir [''key.txt''],
      [''srv'', ''www-secret'', ''key.txt''] \<mapsto> File ''secret'']"

definition sibling_env :: env where
  "sibling_env = stub_env sibling_fs (Inl (Raised Error None)) no_process"

definition sibling_request :: request where
  "sibling_request =
     \<lparr>match_tail = Some ''../www-secret/key.txt'', req_path = ''/../www-secret/key.txt'',
      if_none_match = None\<rparr>"

text \<open>
  A site with \<^verbatim>\<open>foo.mml\<close> and \<^verbatim>\<open>foo.html\<close> next to a directory \<^verbatim>\<open>foo\<close>, with
  \<^verbatim>\<open>page.mml\<close> and \<^verbatim>\<open>page.html\<close>, and with a directory \<^verbatim>\<open>docs\<close> that holds both
  indexes. The converter file is present.
\<close>

definition pages_fs :: "path \<Rightarrow> node option" where
  "pages_fs =
     [[''opt'', ''parrot'', ''mml_converter.py''] \<mapsto> File ''# converter'',
      [''srv'', ''www''] \<mapsto> Dir [''foo'', ''foo.mml'', ''foo.html'', ''page.mml'', ''page.html'',
                               ''docs'', ''notes.txt''],
      [''srv'', ''www'', ''foo''] \<mapsto> Dir [],
      [''srv'', ''www'', ''foo.mml''] \<mapsto> File ''foo source'',
      [''srv'', ''www'', ''foo.html''] \<mapsto> File ''<p>stale foo</p>'',
      [''srv'', ''www'', ''page.mml''] \<mapsto> File ''hello'',
      [''srv'', ''www'', ''page.html''] \<mapsto> File ''<p>stale page</p>'',
      [''srv'', ''www'', ''notes.txt''] \<mapsto> File ''notes'',
      [''srv'', ''www'', ''docs''] \<mapsto> Dir [''index.mml'', ''index.html''],
      [''srv'', ''www'', ''docs'', ''index.mml''] \<mapsto> File ''docs source'',
      [''srv'', ''www'', ''docs'', ''index.html''] \<mapsto> File ''<p>stale docs</p>'']"

text \<open>
  \<^verbatim>\<open>def convert_mml_to_html(text): return "<p>" + text + "</p>"\<close> and nothing else:
  a module with a content-based converter only.
\<close>

definition content_fn :: pyfun where
  "content_fn args =
     (case args of
        [text] \<Rightarrow> (Inr (PStr (''<p>'' @ text @ ''</p>'')), Untouched)
      | _ \<Rightarrow> (Inl (Raised TypeError None), Untouched))"

definition content_only_module :: pymodule where
  "content_only_module name = (if name = ''convert_mml_to_html'' then Callable content_fn else Absent)"

definition content_env :: env where
  "content_env = stub_env pages_fs (Inr content_only_module) no_process"

text \<open>\<^verbatim>\<open>def convert(path): sys.exit(1)\<close>: an entry point that raises \<^verbatim>\<open>SystemExit\<close>.\<close>

definition exiting_fn :: pyfun where
  "exiting_fn args = (case args of [p] \<Rightarrow> (Inl (Raised Exit None), Untouched) | _ \<Rightarrow> (Inl (Raised TypeError None), Untouched))"



text \<open>\<^verbatim>\<open>def convert(): ...\<close>: no call with one or two arguments fits its signature.\<close>

definition nullary_fn :: pyfun where
  "nullary_fn args = (Inl (Raised TypeError None), Untouched)"

text \<open>\<^verbatim>\<open>def convert(path): raise ValueError\<close>, and no usable process either.\<close>

definition failing_fn :: pyfun where
  "failing_fn args = (case args of [p] \<Rightarrow> (Inl (Raised Error None), Untouched) | _ \<Rightarrow> (Inl (Raised TypeError None), Untouched))"

definition failing_module :: pymodule where
  "failing_module name = (if name = ''convert'' then Callable failing_fn else Absent)"

definition failing_env :: env where
  "failing_env = stub_env pages_fs (Inr failing_module) no_process"




text \<open>
  A module whose \<^verbatim>\<open>__getattr__\<close> raises \<^verbatim>\<open>LookupError\<close> for every name, and a
  converter \<^verbatim>\<open>def convert(path): raise Unprintable()\<close> for an exception class whose
  \<^verbatim>\<open>__str__\<close> raises \<^verbatim>\<open>ValueError\<close>.
\<close>

definition guarded_module :: pymodule where
  "guarded_module name = GetattrRaises Error"

definition guarded_env :: env where
  "guarded_env = stub_env pages_fs (Inr guarded_module) no_process"

definition unprintable_fn :: pyfun where
  "unprintable_fn args =
     (case args of [p] \<Rightarrow> (Inl (Raised Error (Some Error)), Untouched)
      | _ \<Rightarrow> (Inl (Raised TypeError None), Untouched))"

definition unprintable_module :: pymodule where
  "unprintable_module name = (if name = ''convert'' then Callable unprintable_fn else Absent)"

definition unprintable_env :: env where
  "unprintable_env = stub_env pages_fs (Inr unprintable_module) no_process"

text \<open>
  \<^verbatim>\<open>def convert_file(src, out)\<close> that writes the document to \<^verbatim>\<open>out\<close> and returns
  \<^verbatim>\<open>None\<close>.
\<close>

definition writing_fn :: pyfun where
  "writing_fn args =
     (case args of
        [src, out] \<Rightarrow> (Inr PNone, Written ''<h1>hi</h1>'')
      | _ \<Rightarrow> (Inl (Raised TypeError None), Untouched))"

definition writing_module :: pymodule where
  "writing_module name = (if name = ''convert_file'' then Callable writing_fn else Absent)"

definition writing_env :: env where
  "writing_env = stub_env pages_fs (Inr writing_module) no_process"

text \<open>
  A converter that only works as a process, and only without a flag: with
  \<^verbatim>\<open>--stdout\<close> it exits with status 2 and a message on the standard error, with \<^verbatim>\<open>-\<close>
  it prints nothing.
\<close>

definition flagless_process :: "string list \<Rightarrow> proc" where
  "flagless_process cmd =
     (if length cmd = 3 then Completed 0 ''<h1>hi</h1>'' ''warning''
      else if last cmd = ''--stdout'' then Completed 2 ''<h1>no</h1>'' ''unknown flag''
      else Completed 0 [CHR 0x0A] [])"

definition process_env :: env where
  "process_env = stub_env sibling_fs (Inl (Raised Error None)) flagless_process"

definition page_request :: "string option \<Rightarrow> request" where
  "page_request inm = \<lparr>match_tail = Some ''page'', req_path = ''/page'', if_none_match = inm\<rparr>"

definition foo_request :: request where
  "foo_request = \<lparr>match_tail = Some ''foo'', req_path = ''/foo'', if_none_match = None\<rparr>"

text \<open>The same request issued \<open>n\<close> times to one process.\<close>

fun repeat_request ::
  "nat \<Rightarrow> env \<Rightarrow> request \<Rightarrow> string \<Rightarrow> bool \<Rightarrow> world \<Rightarrow> (exc + response) list" where
  "repeat_request 0 env req filesystem_root enable_dir_listing w = []"
| "repeat_request (Suc n) env req filesystem_root enable_dir_listing w =
     (let (r, w') = handle_static_request env req filesystem_root enable_dir_listing w
      in r # repeat_request n env req filesystem_root enable_dir_listing w')"

definition page_txt_request :: request where
  "page_txt_request =
     \<lparr>match_tail = Some ''page.txt'', req_path = ''/page.txt'', if_none_match = None\<rparr>"

definition notes_request :: "string option \<Rightarrow> request" where
  "notes_request inm =
     \<lparr>match_tail = Some ''notes.txt'', req_path = ''/notes.txt'', if_none_match = inm\<rparr>"

text \<open>The responses 200 to the plain requests for the page and for the notes.\<close>

definition page_200 :: response where
  "page_200 =
     \<lparr>status = 200,
      headers = [(''Content-Type'', ''text/html; charset=utf-8''),
                 (''ETag'', ''000000000000000000000000000000000000000b''),
                 (''Cache-Control'', ''no-cache''),
                 (''Last-Modified'', ''Thu, 01 Jan 1970 00:00:00 GMT'')],
      payload = Body ''<h1>hi</h1>'', content_type = None\<rparr>"

definition notes_200 :: response where
  "notes_200 =
     \<lparr>status = 200,
      headers = [(''Content-Type'', ''text/plain''),
                 (''ETag'', ''0000000000000000000000000000000000000005''),
                 (''Cache-Control'', ''public, max-age=60'')],
      payload = Body ''notes'', content_type = None\<rparr>"

definition docs_request :: request where
  "docs_request = \<lparr>match_tail = Some ''docs'', req_path = ''/docs'', if_none_match = None\<rparr>"

subsection \<open>Notions the properties are stated with\<close>

text \<open>
  An exception that a handler of the adapter absorbs: it is an \<^verbatim>\<open>Exception\<close> and
  \<^verbatim>\<open>str()\<close> of it returns.
\<close>

definition quiet :: "raised \<Rightarrow> bool" where
  "quiet e = (is_Exception (cls e) \<and> str_raises e = None)"


text \<open>
  An attempt of the process strategy succeeds when it exits with status zero and its
  standard output is neither empty nor blank.
\<close>

definition succeeded :: "proc \<Rightarrow> bool" where
  "succeeded r =
     (case r of
        ProcRaises \<Rightarrow> False
      | Completed returncode out err \<Rightarrow> returncode = 0 \<and> out \<noteq> [] \<and> strip out \<noteq> [])"

text \<open>
  The process strategy in the words of the specification: the standard output of the
  first command, in the order given, whose attempt succeeds.
\<close>

definition first_success :: "(string list \<Rightarrow> proc) \<Rightarrow> string list list \<Rightarrow> string option" where
  "first_success run cmds =
     (case find (\<lambda>cmd. succeeded (run cmd)) cmds of
        None \<Rightarrow> None
      | Some cmd \<Rightarrow> (case run cmd of ProcRaises \<Rightarrow> None | Completed returncode out err \<Rightarrow> Some out))"

definition without_stderr :: "proc \<Rightarrow> proc" where
  "without_stderr r =
     (case r of
        ProcRaises \<Rightarrow> ProcRaises
      | Completed returncode out err \<Rightarrow> Completed returncode out [])"

text \<open>
  Between the worlds \<open>w\<close> and \<open>w'\<close> every temporary file that was created is gone again,
  and no other temporary file has changed.
\<close>

definition tmp_scoped :: "world \<Rightarrow> world \<Rightarrow> bool" where
  "tmp_scoped w w' =
     (next_tmp w \<le> next_tmp w' \<and>
      (\<forall>k. tmp_files w' k =
            (if next_tmp w \<le> k \<and> k < next_tmp w' then None else tmp_files w k)))"

text \<open>
  What the resolver decides for a request, apart from the response it then builds: the
  request is refused, nothing is found, a directory is listed, the handler raises, a file
  is converted, or a file is served as it is.
\<close>

datatype target = Refused | Missing | Listed path | Faulted | Converted path | Plain path

definition resolved_target :: "env \<Rightarrow> path \<Rightarrow> target" where
  "resolved_target env joined =
     (if suffix joined = ''.mml'' \<and> exists env joined then Converted joined
      else if exists env joined \<and> is_file env joined then Plain joined
      else (case with_suffix joined ''.mml'' of
              None \<Rightarrow> Faulted
            | Some p \<Rightarrow>
                if exists env p then Converted p
                else (case with_suffix joined ''.html'' of
                        None \<Rightarrow> Faulted
                      | Some p' \<Rightarrow> if exists env p' then Plain p' else Missing)))"

definition bare_target :: "env \<Rightarrow> path \<Rightarrow> target" where
  "bare_target env joined =
     (if suffix joined = [] then
        (case with_suffix joined ''.mml'' of
           None \<Rightarrow> Faulted
         | Some mml_try \<Rightarrow>
             (case with_suffix joined ''.html'' of
                None \<Rightarrow> Faulted
              | Some html_try \<Rightarrow>
                  if exists env mml_try then Converted mml_try
                  else if exists env html_try then resolved_target env html_try
                  else resolved_target env joined))
      else resolved_target env joined)"

definition route :: "env \<Rightarrow> string \<Rightarrow> string \<Rightarrow> bool \<Rightarrow> target" where
  "route env rel filesystem_root enable_dir_listing =
     (let root = resolve_from (cwd env) filesystem_root;
          joined = resolve_from root rel
      in if \<not> startswith (path_str joined) (path_str root) then Refused
         else (case index_probe env joined of
                 None \<Rightarrow> if enable_dir_listing then Listed joined else Missing
               | Some joined' \<Rightarrow> bare_target env joined'))"

definition answer :: "env \<Rightarrow> request \<Rightarrow> target \<Rightarrow> world \<Rightarrow> (exc + response) \<times> world" where
  "answer env req t w =
     (case t of
        Refused \<Rightarrow> (Inr forbidden, w)
      | Missing \<Rightarrow> (Inr not_found, w)
      | Listed joined \<Rightarrow> (Inr (listing env req joined), w)
      | Faulted \<Rightarrow> (Inl Error, w)
      | Converted p \<Rightarrow> serve_mml env p req w
      | Plain p \<Rightarrow> (serve_file env p req, w))"

section \<open>Lemmas about the adapter\<close>

subsection \<open>What each step does to the world\<close>

lemma say_fields [simp]:
  "tmp_files (say e w) = tmp_files w" "next_tmp (say e w) = next_tmp w"
  "load_calls (say e w) = load_calls w" "module_execs (say e w) = module_execs w"
  by (simp_all add: say_def)

lemma run_attempts_fields:
  "tmp_files (snd (run_attempts env cmds w)) = tmp_files w \<and>
   next_tmp (snd (run_attempts env cmds w)) = next_tmp w \<and>
   load_calls (snd (run_attempts env cmds w)) = load_calls w \<and>
   module_execs (snd (run_attempts env cmds w)) = module_execs w"
  by (induction cmds arbitrary: w) (auto split: proc.splits)

lemma run_subprocess_fields [simp]:
  "tmp_files (snd (run_subprocess_and_capture env p w)) = tmp_files w"
  "next_tmp (snd (run_subprocess_and_capture env p w)) = next_tmp w"
  "load_calls (snd (run_subprocess_and_capture env p w)) = load_calls w"
  "module_execs (snd (run_subprocess_and_capture env p w)) = module_execs w"
  by (simp_all add: run_subprocess_and_capture_def run_attempts_fields)

lemma apply_effect_fields [simp]:
  "next_tmp (apply_effect n eff w) = next_tmp w"
  "load_calls (apply_effect n eff w) = load_calls w"
  "module_execs (apply_effect n eff w) = module_execs w"
  "k \<noteq> n \<Longrightarrow> tmp_files (apply_effect n eff w) k = tmp_files w k"
  by (simp_all add: apply_effect_def split: file_effect.splits)

lemma call_fn_fields [simp]:
  "next_tmp (snd (call_fn fn p n w)) = next_tmp w"
  "load_calls (snd (call_fn fn p n w)) = load_calls w"
  "module_execs (snd (call_fn fn p n w)) = module_execs w"
  "k \<noteq> n \<Longrightarrow> tmp_files (snd (call_fn fn p n w)) k = tmp_files w k"
  by (simp_all add: call_fn_def Let_def split: prod.splits)

lemma unlink_tmp_fields [simp]:
  "next_tmp (unlink_tmp n w) = next_tmp w"
  "load_calls (unlink_tmp n w) = load_calls w"
  "module_execs (unlink_tmp n w) = module_execs w"
  "tmp_files (unlink_tmp n w) = (tmp_files w)(n := None)"
  by (auto simp: unlink_tmp_def split: option.splits)

lemma except_Exception_fields [simp]:
  "tmp_files (snd (except_Exception entry e w)) = tmp_files w"
  "next_tmp (snd (except_Exception entry e w)) = next_tmp w"
  "load_calls (snd (except_Exception entry e w)) = load_calls w"
  "module_execs (snd (except_Exception entry e w)) = module_execs w"
  by (simp_all add: except_Exception_def split: option.splits)

lemma try_candidate_snd:
  "snd (try_candidate fn_name fn p w) =
     unlink_tmp (next_tmp w)
       (case fst (call_fn fn p (next_tmp w) (snd (create_tmp w))) of
          Inr ret \<Rightarrow> snd (call_fn fn p (next_tmp w) (snd (create_tmp w)))
        | Inl e \<Rightarrow> snd (except_Exception (CallError fn_name) e
                         (snd (call_fn fn p (next_tmp w) (snd (create_tmp w))))))"
  by (simp add: try_candidate_def create_tmp_def Let_def
           split: prod.splits sum.splits option.splits)

lemma try_candidate_fields [simp]:
  "next_tmp (snd (try_candidate fn_name fn p w)) = Suc (next_tmp w)"
  "load_calls (snd (try_candidate fn_name fn p w)) = load_calls w"
  "module_execs (snd (try_candidate fn_name fn p w)) = module_execs w"
  by (simp_all add: try_candidate_snd create_tmp_def split: sum.splits)

lemma try_candidate_tmp_files:
  "tmp_files (snd (try_candidate fn_name fn p w)) = (tmp_files w)(next_tmp w := None)"
proof
  fix k
  show "tmp_files (snd (try_candidate fn_name fn p w)) k = ((tmp_files w)(next_tmp w := None)) k"
    by (cases "k = next_tmp w") (simp_all add: try_candidate_snd create_tmp_def split: sum.splits)
qed


lemma try_candidates_Callable:
  "m fn_name = Callable fn \<Longrightarrow>
   try_candidates m (fn_name # rest) p w =
     (case fst (try_candidate fn_name fn p w) of
        Next \<Rightarrow> try_candidates m rest p (snd (try_candidate fn_name fn p w))
      | Return s \<Rightarrow> (Return s, snd (try_candidate fn_name fn p w))
      | Raise e \<Rightarrow> (Raise e, snd (try_candidate fn_name fn p w)))"
  by (simp add: case_prod_beta)

lemma try_candidates_not_Callable:
  "m fn_name = Absent \<or> m fn_name = NotCallable \<Longrightarrow>
   try_candidates m (fn_name # rest) p w = try_candidates m rest p w"
  by auto

lemma try_candidates_loads:
  "load_calls (snd (try_candidates m names p w)) = load_calls w \<and>
   module_execs (snd (try_candidates m names p w)) = module_execs w"
proof (induction names arbitrary: w)
  case Nil
  show ?case by simp
next
  case (Cons fn_name rest)
  show ?case
  proof (cases "m fn_name")
    case (Callable fn)
    show ?thesis
      by (cases "fst (try_candidate fn_name fn p w)")
         (simp_all add: try_candidates_Callable Callable Cons.IH del: try_candidates.simps)
  qed (simp_all add: Cons.IH)
qed

lemma tmp_scoped_refl: "tmp_scoped w w"
  by (auto simp: tmp_scoped_def)

lemma tmp_scoped_try_candidate: "tmp_scoped w (snd (try_candidate fn_name fn p w))"
  by (simp add: tmp_scoped_def try_candidate_tmp_files)

lemma tmp_scoped_step:
  "tmp_scoped (snd (try_candidate fn_name fn p w)) w' \<Longrightarrow> tmp_scoped w w'"
  by (auto simp: tmp_scoped_def try_candidate_tmp_files)

lemma try_candidates_scoped: "tmp_scoped w (snd (try_candidates m names p w))"
proof (induction names arbitrary: w)
  case Nil
  show ?case by (simp add: tmp_scoped_refl)
next
  case (Cons fn_name rest)
  show ?case
  proof (cases "m fn_name")
    case (Callable fn)
    show ?thesis
      by (cases "fst (try_candidate fn_name fn p w)")
         (simp_all add: try_candidates_Callable Callable tmp_scoped_try_candidate
            tmp_scoped_step [OF Cons.IH] del: try_candidates.simps)
  qed (simp_all add: Cons.IH tmp_scoped_refl)
qed

lemma content_fallback_fields [simp]:
  "tmp_files (snd (content_fallback env m p w)) = tmp_files w"
  "next_tmp (snd (content_fallback env m p w)) = next_tmp w"
  "load_calls (snd (content_fallback env m p w)) = load_calls w"
  "module_execs (snd (content_fallback env m p w)) = module_execs w"
  by (simp_all add: content_fallback_def except_Exception_def
        split: attr.splits option.splits sum.splits pyval.splits)

lemma load_converter_module_fields [simp]:
  "tmp_files (snd (load_converter_module env w)) = tmp_files w"
  "next_tmp (snd (load_converter_module env w)) = next_tmp w"
  "load_calls (snd (load_converter_module env w)) = Suc (load_calls w)"
  "module_execs (snd (load_converter_module env w)) =
     (if exists env (converter_path env) then Suc (module_execs w) else module_execs w)"
  by (simp_all add: load_converter_module_def except_Exception_def Let_def
        split: sum.splits option.splits)

text \<open>The world after a conversion, stage by stage.\<close>

lemma convert_snd:
  "snd (convert_mml_file_to_html_string env p w) =
     (let w1 = snd (load_converter_module env w)
      in case fst (load_converter_module env w) of
           Inl e \<Rightarrow> w1
         | Inr None \<Rightarrow> snd (run_subprocess_and_capture env p w1)
         | Inr (Some m) \<Rightarrow>
             (let w2 = snd (try_candidates m file_fn_candidates p w1)
              in case fst (try_candidates m file_fn_candidates p w1) of
                   Return s \<Rightarrow> w2
                 | Raise e \<Rightarrow> w2
                 | Next \<Rightarrow>
                     (let w3 = snd (content_fallback env m p w2)
                      in case fst (content_fallback env m p w2) of
                           Return s \<Rightarrow> w3
                         | Raise e \<Rightarrow> w3
                         | Next \<Rightarrow> snd (run_subprocess_and_capture env p w3))))"
  by (simp add: convert_mml_file_to_html_string_def Let_def
           split: prod.splits sum.splits option.splits flow.splits)

lemma convert_loads:
  "load_calls (snd (convert_mml_file_to_html_string env p w)) = Suc (load_calls w) \<and>
   module_execs (snd (convert_mml_file_to_html_string env p w)) =
     (if exists env (converter_path env) then Suc (module_execs w) else module_execs w)"
  by (simp add: convert_snd Let_def try_candidates_loads
           split: sum.splits option.splits flow.splits)

lemma tmp_scoped_eq:
  "tmp_files w' = tmp_files w \<Longrightarrow> next_tmp w' = next_tmp w \<Longrightarrow> tmp_scoped w0 w \<Longrightarrow> tmp_scoped w0 w'"
  by (simp add: tmp_scoped_def)

lemma tmp_scoped_eq_left:
  "tmp_files w1 = tmp_files w \<Longrightarrow> next_tmp w1 = next_tmp w \<Longrightarrow> tmp_scoped w1 w' \<Longrightarrow> tmp_scoped w w'"
  by (simp add: tmp_scoped_def)

lemma convert_scoped: "tmp_scoped w (snd (convert_mml_file_to_html_string env p w))"
proof -
  let ?w1 = "snd (load_converter_module env w)"
  have a: "tmp_scoped w ?w1"
    by (rule tmp_scoped_eq [OF _ _ tmp_scoped_refl]) simp_all
  have b: "tmp_scoped w (snd (try_candidates m names p ?w1))" for m names
    by (rule tmp_scoped_eq_left [OF _ _ try_candidates_scoped]) simp_all
  have c: "tmp_scoped w (snd (run_subprocess_and_capture env p ?w1))"
    by (rule tmp_scoped_eq [OF _ _ tmp_scoped_refl]) simp_all
  have d: "tmp_scoped w (snd (content_fallback env m p (snd (try_candidates m names p ?w1))))" for m names
    by (rule tmp_scoped_eq [OF _ _ b]) simp_all
  have e: "tmp_scoped w (snd (run_subprocess_and_capture env p
             (snd (content_fallback env m p (snd (try_candidates m names p ?w1))))))" for m names
    by (rule tmp_scoped_eq [OF _ _ b]) simp_all
  show ?thesis
    by (simp add: convert_snd Let_def a b c d e split: sum.splits option.splits flow.splits)
qed

lemma convert_all_loads:
  "load_calls (convert_all env ps w) = load_calls w + length ps \<and>
   module_execs (convert_all env ps w) =
     module_execs w + (if exists env (converter_path env) then length ps else 0)"
  by (induction ps arbitrary: w) (simp_all add: convert_loads)

subsection \<open>Which exceptions leave the adapter\<close>

lemma except_Exception_fst:
  "fst (except_Exception entry e w) = (if quiet e then None else Some (if is_Exception (cls e) then the (str_raises e) else cls e))"
  by (auto simp: except_Exception_def quiet_def split: option.splits)

lemma except_Exception_quiet:
  "quiet e \<Longrightarrow> fst (except_Exception entry e w) = None"
  by (simp add: except_Exception_fst)








lemma load_converter_module_fst:
  "fst (load_converter_module env w) =
     (if \<not> exists env (converter_path env) then Inr None
      else case exec_module env of
             Inr m \<Rightarrow> Inr (Some m)
           | Inl e \<Rightarrow> if quiet e then Inr None
                      else Inl (if is_Exception (cls e) then the (str_raises e) else cls e))"
  by (auto simp: load_converter_module_def except_Exception_def quiet_def Let_def
           split: sum.splits option.splits)

lemma convert_fst:
  "fst (convert_mml_file_to_html_string env p w) =
     (let w1 = snd (load_converter_module env w)
      in case fst (load_converter_module env w) of
           Inl e \<Rightarrow> Inl e
         | Inr None \<Rightarrow> Inr (fst (run_subprocess_and_capture env p w1))
         | Inr (Some m) \<Rightarrow>
             (let w2 = snd (try_candidates m file_fn_candidates p w1)
              in case fst (try_candidates m file_fn_candidates p w1) of
                   Return s \<Rightarrow> Inr (Some s)
                 | Raise e \<Rightarrow> Inl e
                 | Next \<Rightarrow>
                     (let w3 = snd (content_fallback env m p w2)
                      in case fst (content_fallback env m p w2) of
                           Return s \<Rightarrow> Inr (Some s)
                         | Raise e \<Rightarrow> Inl e
                         | Next \<Rightarrow> Inr (fst (run_subprocess_and_capture env p w3)))))"
  by (simp add: convert_mml_file_to_html_string_def Let_def
           split: prod.splits sum.splits option.splits flow.splits)


subsection \<open>The process strategy\<close>

lemma run_attempts_first_success:
  "fst (run_attempts env cmds w) = first_success (subprocess_run env) cmds"
  by (induction cmds arbitrary: w)
     (auto simp: first_success_def succeeded_def nonblank_def split: proc.splits)

lemma first_success_None:
  "(first_success run cmds = None) = (\<forall>cmd \<in> set cmds. \<not> succeeded (run cmd))"
  by (induction cmds) (auto simp: first_success_def succeeded_def split: proc.splits)

lemma first_success_stderr:
  "first_success (\<lambda>cmd. without_stderr (run cmd)) cmds = first_success run cmds"
  by (induction cmds)
     (auto simp: first_success_def succeeded_def without_stderr_def split: proc.splits)

section \<open>Lemmas about the static handler\<close>

lemma serve_mml_cases:
  "serve_mml env q req w =
     (case fst (convert_mml_file_to_html_string env (path_str q) w) of
        Inl e \<Rightarrow> (Inl e, snd (convert_mml_file_to_html_string env (path_str q) w))
      | Inr None \<Rightarrow> (Inr conversion_failed, snd (convert_mml_file_to_html_string env (path_str q) w))
      | Inr (Some html) \<Rightarrow>
          (if if_none_match req = Some (compute_etag_bytes (sha1 env) (encode_utf8 html)) \<and>
              compute_etag_bytes (sha1 env) (encode_utf8 html) \<noteq> []
           then Inr \<lparr>status = 304,
                      headers = mml_headers env q (compute_etag_bytes (sha1 env) (encode_utf8 html)),
                      payload = NoBody, content_type = None\<rparr>
           else Inr \<lparr>status = 200,
                      headers = mml_headers env q (compute_etag_bytes (sha1 env) (encode_utf8 html)),
                      payload = Body (encode_utf8 html), content_type = None\<rparr>,
           snd (convert_mml_file_to_html_string env (path_str q) w)))"
  by (cases "convert_mml_file_to_html_string env (path_str q) w")
     (auto simp: serve_mml_def Let_def split: sum.splits option.splits)

lemma hexdigest_length: "length (hexdigest d) = 40"
  by (simp add: hexdigest_def)

lemma compute_etag_bytes_nonempty: "compute_etag_bytes h data \<noteq> []"
  using hexdigest_length [of "h data"] by (auto simp: compute_etag_bytes_def)

lemma serve_file_cases:
  "serve_file env p req =
     (case fs env p of
        Some (File body) \<Rightarrow>
          Inr (if if_none_match req = Some (compute_etag_bytes (sha1 env) body)
               then \<lparr>status = 304,
                     headers = file_headers (guess_mime_type (guess_type env) (path_str p))
                                 (compute_etag_bytes (sha1 env) body),
                     payload = NoBody, content_type = None\<rparr>
               else \<lparr>status = 200,
                     headers = file_headers (guess_mime_type (guess_type env) (path_str p))
                                 (compute_etag_bytes (sha1 env) body),
                     payload = Body body, content_type = None\<rparr>)
      | Some (Dir names) \<Rightarrow> Inl Error
      | None \<Rightarrow> Inl Error)"
  by (simp add: serve_file_def Let_def split: option.splits node.splits)

lemma serve_resolved_answer:
  "serve_resolved env joined req w = answer env req (resolved_target env joined) w"
  by (simp add: serve_resolved_def resolved_target_def answer_def split: option.splits)

lemma bare_probe_answer:
  "bare_probe env joined req w = answer env req (bare_target env joined) w"
  by (simp add: bare_probe_def bare_target_def serve_resolved_answer split: option.splits)
     (simp add: answer_def)

lemma handle_route:
  "handle_static_request env req filesystem_root enable_dir_listing w =
     answer env req (route env (rel_url_path req) filesystem_root enable_dir_listing) w"
  by (simp add: handle_static_request_def route_def Let_def bare_probe_answer split: option.splits)
     (simp add: answer_def)

lemma with_suffix_bare:
  "foo \<noteq> [] \<Longrightarrow> suffix_of_name foo = [] \<Longrightarrow> with_suffix (d @ [foo]) ext = Some (d @ [foo @ ext])"
  by (simp add: with_suffix_def name_of_def suffix_def Let_def)

lemma suffix_index_mml: "suffix (joined @ [''index.mml'']) = ''.mml''"
  by (simp add: suffix_def name_of_def suffix_of_name_def)

lemma answer_conditional:
  assumes "fst (answer env (req\<lparr>if_none_match := None\<rparr>) t w) = Inr r"
    and "status r = 200"
    and "map_of (headers r) ''ETag'' = Some etag"
  shows "fst (answer env (req\<lparr>if_none_match := Some etag\<rparr>) t w) =
           Inr (r\<lparr>status := 304, payload := NoBody\<rparr>)"
proof (cases t)
  case Refused
  with assms show ?thesis by (auto simp: answer_def forbidden_def)
next
  case Missing
  with assms show ?thesis by (auto simp: answer_def not_found_def)
next
  case (Listed j)
  with assms show ?thesis by (auto simp: answer_def listing_def Let_def)
next
  case Faulted
  with assms show ?thesis by (simp add: answer_def)
next
  case (Converted p)
  with assms show ?thesis
    by (auto simp: answer_def serve_mml_cases mml_headers_def conversion_failed_def
          compute_etag_bytes_nonempty split: sum.splits option.splits if_splits)
next
  case (Plain p)
  with assms show ?thesis
    by (auto simp: answer_def serve_file_cases file_headers_def
             split: option.splits node.splits if_splits)
qed

lemma rel_url_path_if_none_match [simp]:
  "rel_url_path (req\<lparr>if_none_match := x\<rparr>) = rel_url_path req"
  by (simp add: rel_url_path_def Let_def)

lemma handle_conditional:
  assumes "fst (handle_static_request env (req\<lparr>if_none_match := None\<rparr>) root l w) = Inr r"
    and "status r = 200"
    and "map_of (headers r) ''ETag'' = Some etag"
  shows "fst (handle_static_request env (req\<lparr>if_none_match := Some etag\<rparr>) root l w) =
           Inr (r\<lparr>status := 304, payload := NoBody\<rparr>)"
  using assms answer_conditional [of env req "route env (rel_url_path req) root l" w r etag]
  by (simp add: handle_route)

lemma repeat_conditional:
  assumes "\<forall>w'. fst (handle_static_request env (req\<lparr>if_none_match := None\<rparr>) root l w') = Inr r"
    and "status r = 200"
    and "map_of (headers r) ''ETag'' = Some etag"
  shows "repeat_request n env (req\<lparr>if_none_match := Some etag\<rparr>) root l w =
           replicate n (Inr (r\<lparr>status := 304, payload := NoBody\<rparr>))"
proof (induction n arbitrary: w)
  case 0
  show ?case by simp
next
  case (Suc n)
  from assms have "fst (handle_static_request env (req\<lparr>if_none_match := Some etag\<rparr>) root l w) =
           Inr (r\<lparr>status := 304, payload := NoBody\<rparr>)"
    by (intro handle_conditional) auto
  then show ?case
    by (simp add: Suc.IH case_prod_beta)
qed

lemma handle_inside:
  assumes "root = resolve_from (cwd env) filesystem_root"
    and "joined = resolve_from root (rel_url_path req)"
    and "startswith (path_str joined) (path_str root)"
  shows "handle_static_request env req filesystem_root listing_on w =
           (case index_probe env joined of
              None \<Rightarrow> if listing_on then (Inr (listing env req joined), w) else (Inr not_found, w)
            | Some joined' \<Rightarrow> bare_probe env joined' req w)"
  using assms(3) unfolding assms(1,2) by (simp add: handle_static_request_def Let_def)

lemma bare_probe_mml:
  assumes "foo \<noteq> []" and "suffix_of_name foo = []" and "exists env (d @ [foo @ ''.mml''])"
  shows "bare_probe env (d @ [foo]) req w = serve_mml env (d @ [foo @ ''.mml'']) req w"
proof -
  have "suffix (d @ [foo]) = []"
    using assms by (simp add: suffix_def name_of_def)
  then show ?thesis
    using assms by (simp add: bare_probe_def with_suffix_bare)
qed

lemma bare_probe_index_mml:
  assumes "exists env (joined @ [''index.mml''])"
  shows "bare_probe env (joined @ [''index.mml'']) req w =
           serve_mml env (joined @ [''index.mml'']) req w"
  using assms by (simp add: bare_probe_def serve_resolved_def suffix_index_mml)

lemma bare_probe_sibling:
  assumes "\<not> exists env joined" and "with_suffix joined ''.mml'' = Some p" and "exists env p"
    and "with_suffix joined ''.html'' = Some p'"
  shows "bare_probe env joined req w = serve_mml env p req w"
  using assms by (simp add: bare_probe_def serve_resolved_def)

subsection \<open>The example site in any world\<close>

lemma page_any_world:
  "fst (convert_mml_file_to_html_string writing_env ''/srv/www/page.mml'' w') =
     Inr (Some ''<h1>hi</h1>'')"
proof -
  have e: "exists writing_env (converter_path writing_env)"
    by code_simp
  have m: "exec_module writing_env = Inr writing_module"
    by (simp add: writing_env_def stub_env_def)
  have t: "strip ''<h1>hi</h1>'' \<noteq> []"
    by code_simp
  have rt: "read_text ''<h1>hi</h1>'' = Some ''<h1>hi</h1>''"
    by code_simp
  have c: "fst (try_candidates writing_module file_fn_candidates ''/srv/www/page.mml'' w) =
        Return ''<h1>hi</h1>''" for w
    by (simp add: file_fn_candidates_def writing_module_def try_candidate_def create_tmp_def
          call_fn_def writing_fn_def is_TypeError_def apply_effect_def read_tmp_def rt
          nonblank_def t Let_def)
  show ?thesis
    by (simp add: convert_fst load_converter_module_fst e m c Let_def)
qed

lemma page_plain_any_world:
  "fst (handle_static_request writing_env ((page_request None)\<lparr>if_none_match := None\<rparr>)
          ''/srv/www'' False w') = Inr page_200"
proof -
  have t: "route writing_env (rel_url_path (page_request None)) ''/srv/www'' False =
           Converted [''srv'', ''www'', ''page.mml'']"
    by code_simp
  have s: "path_str [''srv'', ''www'', ''page.mml''] = ''/srv/www/page.mml''"
    by code_simp
  have i: "if_none_match ((page_request None)\<lparr>if_none_match := None\<rparr>) = None"
    by simp
  have h: "\<lparr>status = 200,
            headers = mml_headers writing_env [''srv'', ''www'', ''page.mml'']
                        (compute_etag_bytes (sha1 writing_env) (encode_utf8 ''<h1>hi</h1>'')),
            payload = Body (encode_utf8 ''<h1>hi</h1>''), content_type = None\<rparr> = page_200"
    by code_simp
  show ?thesis
    by (simp only: handle_route rel_url_path_if_none_match t answer_def target.case
          serve_mml_cases s page_any_world sum.case option.case i fst_conv h)
       simp
qed

section \<open>The claims\<close>

subsection \<open>The adapter and the utilities\<close>

text \<open>
  Claim C10. \<^verbatim>\<open>guess_mime_type\<close> never returns an empty content type: it returns the
  type the MIME table gives for the name when there is one, and
  \<^verbatim>\<open>application/octet-stream\<close> otherwise; so every response of \<^verbatim>\<open>_serve_file\<close> carries
  a \<^verbatim>\<open>Content-Type\<close> header that is not empty.
\<close>

theorem guess_mime_type_nonempty:
  "guess_mime_type gt path \<noteq> [] \<and>
   (\<forall>mime. gt path = Some mime \<and> mime \<noteq> [] \<longrightarrow> guess_mime_type gt path = mime) \<and>
   (gt path = None \<longrightarrow> guess_mime_type gt path = ''application/octet-stream'') \<and>
   (\<forall>r. serve_file env p req = Inr r \<longrightarrow>
        (\<exists>ct. map_of (headers r) ''Content-Type'' = Some ct \<and> ct \<noteq> []))"
proof -
  have nonempty: "guess_mime_type g s \<noteq> []" for g s
    by (simp add: guess_mime_type_def split: option.splits)
  have "\<exists>ct. map_of (headers r) ''Content-Type'' = Some ct \<and> ct \<noteq> []"
    if "serve_file env p req = Inr r" for r
    using that nonempty [of "guess_type env" "path_str p"]
    by (auto simp: serve_file_def file_headers_def Let_def
             split: option.splits node.splits if_splits)
  then show ?thesis
    using nonempty [of gt path] by (simp add: guess_mime_type_def)
qed

theorem guess_mime_type_nonempty_witness:
  "guess_type content_env ''/srv/www/notes.txt'' = Some ''text/plain'' \<and>
   guess_mime_type (guess_type content_env) ''/srv/www/notes.txt'' = ''text/plain'' \<and>
   guess_type content_env ''/srv/www/page.mml'' = None \<and>
   guess_mime_type (guess_type content_env) ''/srv/www/page.mml'' = ''application/octet-stream'' \<and>
   (\<exists>r ct. serve_file content_env [''srv'', ''www'', ''notes.txt''] (page_request None) = Inr r \<and>
           map_of (headers r) ''Content-Type'' = Some ct \<and> ct \<noteq> [])"
proof -
  have a: "guess_type content_env ''/srv/www/notes.txt'' = Some ''text/plain''"
    by (simp add: content_env_def stub_env_def startswith_def)
  have b: "guess_type content_env ''/srv/www/page.mml'' = None"
    by (simp add: content_env_def stub_env_def startswith_def)
  have c: "\<exists>r. serve_file content_env [''srv'', ''www'', ''notes.txt''] (page_request None) = Inr r"
    by (simp add: serve_file_def content_env_def stub_env_def pages_fs_def Let_def)
  show ?thesis
    using a b c
      guess_mime_type_nonempty [of "guess_type content_env" "''/srv/www/notes.txt''"
        content_env "[''srv'', ''www'', ''notes.txt'']" "page_request None"]
      guess_mime_type_nonempty [of "guess_type content_env" "''/srv/www/page.mml''"
        content_env "[''srv'', ''www'', ''notes.txt'']" "page_request None"]
    by auto
qed

text \<open>
  Claim C7. The process strategy tries \<^verbatim>\<open>--stdout\<close>, then \<^verbatim>\<open>-\<close>, then no flag, and
  returns the standard output of the first attempt that exits with status zero and a
  standard output that is not blank. It returns \<^verbatim>\<open>None\<close> exactly when no attempt
  succeeds, and what the attempts write to the standard error does not change the
  result.
\<close>

theorem subprocess_first_success:
  "fst (run_subprocess_and_capture env mml_path w) =
     first_success (subprocess_run env)
       [[sys_executable env, path_str (converter_path env), mml_path, ''--stdout''],
        [sys_executable env, path_str (converter_path env), mml_path, ''-''],
        [sys_executable env, path_str (converter_path env), mml_path]] \<and>
   ((fst (run_subprocess_and_capture env mml_path w) = None) =
      (\<forall>cmd \<in> set (attempts env mml_path). \<not> succeeded (subprocess_run env cmd))) \<and>
   fst (run_subprocess_and_capture
          (env\<lparr>subprocess_run := \<lambda>cmd. without_stderr (subprocess_run env cmd)\<rparr>) mml_path w) =
     fst (run_subprocess_and_capture env mml_path w)"
proof -
  have a: "fst (run_subprocess_and_capture e mml_path w) =
           first_success (subprocess_run e) (attempts e mml_path)" for e
    by (simp only: run_subprocess_and_capture_def run_attempts_first_success)
  have b: "attempts (env\<lparr>subprocess_run := r\<rparr>) mml_path = attempts env mml_path" for r
    by (simp add: attempts_def)
  have c1: "fst (run_subprocess_and_capture env mml_path w) =
     first_success (subprocess_run env)
       [[sys_executable env, path_str (converter_path env), mml_path, ''--stdout''],
        [sys_executable env, path_str (converter_path env), mml_path, ''-''],
        [sys_executable env, path_str (converter_path env), mml_path]]"
    by (simp only: a attempts_def)
  have c2: "(fst (run_subprocess_and_capture env mml_path w) = None) =
      (\<forall>cmd \<in> set (attempts env mml_path). \<not> succeeded (subprocess_run env cmd))"
    by (simp only: a first_success_None)
  have c3: "fst (run_subprocess_and_capture
          (env\<lparr>subprocess_run := \<lambda>cmd. without_stderr (subprocess_run env cmd)\<rparr>) mml_path w) =
     fst (run_subprocess_and_capture env mml_path w)"
    by (simp add: a b first_success_stderr)
  from c1 c2 c3 show ?thesis by (intro conjI)
qed

theorem subprocess_first_success_witness:
  "fst (run_subprocess_and_capture process_env ''/srv/www/page.mml'' world0) = Some ''<h1>hi</h1>'' \<and>
   \<not> succeeded (subprocess_run process_env
       [''/usr/bin/python3'', ''/opt/parrot/mml_converter.py'', ''/srv/www/page.mml'', ''--stdout'']) \<and>
   \<not> succeeded (subprocess_run process_env
       [''/usr/bin/python3'', ''/opt/parrot/mml_converter.py'', ''/srv/www/page.mml'', ''-'']) \<and>
   succeeded (subprocess_run process_env
       [''/usr/bin/python3'', ''/opt/parrot/mml_converter.py'', ''/srv/www/page.mml''])"
  using subprocess_first_success [of process_env "''/srv/www/page.mml''" world0]
  by (simp add: process_env_def stub_env_def flagless_process_def first_success_def
        succeeded_def path_str_def strip_def isspace_def)

text \<open>
  Claim C6. One round of the loop over the named candidates leaves the world without the
  temporary file it created, whatever the entry point does (it returns a string, writes
  the file, raises \<^verbatim>\<open>TypeError\<close> twice, or raises anything else) and however the round
  ends (\<open>Return\<close>, \<open>Next\<close> or \<open>Raise\<close>); no other temporary file changes. So when a
  conversion ends, every temporary file it created is gone and the others are as they
  were.
\<close>

theorem temp_file_removed:
  "tmp_files (snd (try_candidate fn_name fn mml_path w)) = (tmp_files w)(next_tmp w := None) \<and>
   tmp_scoped w (snd (convert_mml_file_to_html_string env mml_path w))"
  by (simp add: try_candidate_tmp_files convert_scoped)

theorem temp_file_removed_witness:
  "fst (try_candidate ''convert_mml_to_html'' content_fn ''/srv/www/page.mml'' world0) =
     Return ''<p>/srv/www/page.mml</p>'' \<and>
   tmp_files (snd (try_candidate ''convert_mml_to_html'' content_fn ''/srv/www/page.mml'' world0)) 0 = None \<and>
   fst (try_candidate ''convert_file'' writing_fn ''/srv/www/page.mml'' world0) =
     Return ''<h1>hi</h1>'' \<and>
   tmp_files (snd (try_candidate ''convert_file'' writing_fn ''/srv/www/page.mml'' world0)) 0 = None \<and>
   fst (try_candidate ''convert'' nullary_fn ''/srv/www/page.mml'' world0) = Next \<and>
   tmp_files (snd (try_candidate ''convert'' nullary_fn ''/srv/www/page.mml'' world0)) 0 = None \<and>
   fst (try_candidate ''convert'' failing_fn ''/srv/www/page.mml'' world0) = Next \<and>
   tmp_files (snd (try_candidate ''convert'' failing_fn ''/srv/www/page.mml'' world0)) 0 = None \<and>
   fst (try_candidate ''convert'' exiting_fn ''/srv/www/page.mml'' world0) = Raise Exit \<and>
   tmp_files (snd (try_candidate ''convert'' exiting_fn ''/srv/www/page.mml'' world0)) 0 = None \<and>
   next_tmp (snd (convert_mml_file_to_html_string writing_env ''/srv/www/page.mml'' world0)) = 1 \<and>
   tmp_files (snd (convert_mml_file_to_html_string writing_env ''/srv/www/page.mml'' world0)) 0 = None"
proof -
  have z: "next_tmp world0 = 0"
    by (simp add: world0_def)
  have gone: "tmp_files (snd (try_candidate fn_name fn ''/srv/www/page.mml'' world0)) 0 = None"
    for fn_name fn
    using temp_file_removed [THEN conjunct1, of fn_name fn "''/srv/www/page.mml''" world0]
    by (simp add: z)
  have f1: "fst (try_candidate ''convert_mml_to_html'' content_fn ''/srv/www/page.mml'' world0) =
     Return ''<p>/srv/www/page.mml</p>''"
    by code_simp
  have f2: "fst (try_candidate ''convert_file'' writing_fn ''/srv/www/page.mml'' world0) =
     Return ''<h1>hi</h1>''"
    by code_simp
  have f3: "fst (try_candidate ''convert'' nullary_fn ''/srv/www/page.mml'' world0) = Next"
    by code_simp
  have f4: "fst (try_candidate ''convert'' failing_fn ''/srv/www/page.mml'' world0) = Next"
    by code_simp
  have f5: "fst (try_candidate ''convert'' exiting_fn ''/srv/www/page.mml'' world0) = Raise Exit"
    by code_simp
  let ?w = "snd (convert_mml_file_to_html_string writing_env ''/srv/www/page.mml'' world0)"
  have n: "next_tmp ?w = 1"
    by code_simp
  from temp_file_removed [THEN conjunct2, of world0 writing_env "''/srv/www/page.mml''"]
  have "tmp_scoped world0 ?w" .
  with n z have c: "tmp_files ?w 0 = None"
    by (simp add: tmp_scoped_def)
  from f1 f2 f3 f4 f5 gone n c show ?thesis
    by (intro conjI)
qed

text \<open>
  Claim C2, as the code has it. Nothing is kept between two conversions: every call of
  \<^verbatim>\<open>convert_mml_file_to_html_string\<close> calls \<^verbatim>\<open>_load_converter_module\<close> once, and that
  executes the module once when the converter file exists. A process that converts
  \<open>n\<close> paths has run the load routine \<open>n\<close> times.
\<close>

theorem conversion_reloads_module:
  "load_calls (snd (convert_mml_file_to_html_string env mml_path w)) = Suc (load_calls w) \<and>
   load_calls (convert_all env ps w) = load_calls w + length ps \<and>
   module_execs (convert_all env ps w) =
     module_execs w + (if exists env (converter_path env) then length ps else 0)"
  by (simp add: convert_loads convert_all_loads)

theorem conversion_reloads_module_witness:
  "exists content_env (converter_path content_env) \<and>
   load_calls (convert_all content_env
     [''/srv/www/page.mml'', ''/srv/www/foo.mml'', ''/srv/www/page.mml''] world0) = 3 \<and>
   module_execs (convert_all content_env
     [''/srv/www/page.mml'', ''/srv/www/foo.mml'', ''/srv/www/page.mml''] world0) = 3"
proof -
  have e: "exists content_env (converter_path content_env)"
    by (simp add: exists_def content_env_def stub_env_def pages_fs_def)
  show ?thesis
    using e conversion_reloads_module [of content_env "''/srv/www/page.mml''" world0
      "[''/srv/www/page.mml'', ''/srv/www/foo.mml'', ''/srv/www/page.mml'']"]
    by (simp add: world0_def)
qed

text \<open>
  Claim C2 as stated fails: the module kept from the first conversion would make the
  second conversion load nothing, but after two conversions of the same file the load
  routine has run twice and has executed the module twice.
\<close>

theorem module_loaded_twice:
  "load_calls (convert_all writing_env [''/srv/www/page.mml'', ''/srv/www/page.mml''] world0) = 2 \<and>
   module_execs (convert_all writing_env [''/srv/www/page.mml'', ''/srv/www/page.mml''] world0) = 2"
  by code_simp




text \<open>
  Two more ways for an exception to leave the adapter, both with exceptions derived
  from \<^verbatim>\<open>Exception\<close>: a \<^verbatim>\<open>__getattr__\<close> of the module that raises at the lookup of line
  74, and an entry point that raises an exception whose \<^verbatim>\<open>str()\<close> raises, which the
  handler of line 111 formats.
\<close>

lemma convert_propagates_lookup_error:
  "fst (convert_mml_file_to_html_string guarded_env ''/srv/www/page.mml'' world0) = Inl Error"
  by code_simp

lemma convert_propagates_str_error:
  "fst (convert_mml_file_to_html_string unprintable_env ''/srv/www/page.mml'' world0) = Inl Error \<and>
   tmp_files (snd (convert_mml_file_to_html_string unprintable_env ''/srv/www/page.mml'' world0)) 0 =
     None"
  by code_simp

text \<open>
  Claim C9 at a module that has the content-based converter
  \<^verbatim>\<open>convert_mml_to_html\<close> and nothing else. The file holds \<^verbatim>\<open>hello\<close> and the converter
  turns that text into \<^verbatim>\<open><p>hello</p>\<close>, but \<^verbatim>\<open>convert_mml_to_html\<close> is also the third
  named candidate: it is called with the path as its only argument, and the adapter
  returns the conversion of the path.
\<close>

theorem content_converter_gets_path:
  "open_read_text content_env ''/srv/www/page.mml'' = Some ''hello'' \<and>
   fst (content_fn [''hello'']) = Inr (PStr ''<p>hello</p>'') \<and>
   fst (convert_mml_file_to_html_string content_env ''/srv/www/page.mml'' world0) =
     Inr (Some ''<p>/srv/www/page.mml</p>'')"
  by code_simp

subsection \<open>The static handler\<close>

text \<open>
  Claim C1 at the root \<^verbatim>\<open>/srv/www\<close> and the request path
  \<^verbatim>\<open>../www-secret/key.txt\<close>. The path resolves to \<^verbatim>\<open>/srv/www-secret/key.txt\<close>, which
  is not below the root, but its string starts with the string of the root, so the
  test of line 41 lets it through and the handler answers 200 with the bytes of the
  file.
\<close>

theorem traversal_sibling_directory_served:
  "resolve_from (cwd sibling_env) ''/srv/www'' = [''srv'', ''www''] \<and>
   resolve_from [''srv'', ''www''] (rel_url_path sibling_request) =
     [''srv'', ''www-secret'', ''key.txt''] \<and>
   \<not> prefix [''srv'', ''www''] [''srv'', ''www-secret'', ''key.txt''] \<and>
   startswith (path_str [''srv'', ''www-secret'', ''key.txt'']) (path_str [''srv'', ''www'']) \<and>
   fst (handle_static_request sibling_env sibling_request ''/srv/www'' False world0) =
     Inr \<lparr>status = 200,
          headers = [(''Content-Type'', ''text/plain''),
                     (''ETag'', ''0000000000000000000000000000000000000006''),
                     (''Cache-Control'', ''public, max-age=60'')],
          payload = Body ''secret'', content_type = None\<rparr>"
  by code_simp

text \<open>
  Claim C3, as the code has it. Let the requested path resolve to \<open>joined\<close> inside the
  root. When \<open>joined\<close> is not a directory, its name \<open>foo\<close> has no suffix, and
  \<^verbatim>\<open>foo.mml\<close> and \<^verbatim>\<open>foo.html\<close> both exist, the request is answered by \<^verbatim>\<open>_serve_mml\<close> on
  \<^verbatim>\<open>foo.mml\<close>. When \<open>joined\<close> is a directory that holds \<^verbatim>\<open>index.mml\<close> and
  \<^verbatim>\<open>index.html\<close>, it is answered by \<^verbatim>\<open>_serve_mml\<close> on \<^verbatim>\<open>index.mml\<close>. When \<open>joined\<close>
  does not exist and both siblings with the suffixes \<^verbatim>\<open>.mml\<close> and \<^verbatim>\<open>.html\<close> do, it is
  answered by \<^verbatim>\<open>_serve_mml\<close> on the \<^verbatim>\<open>.mml\<close> sibling.
\<close>

theorem mml_preferred_over_html:
  "root = resolve_from (cwd env) filesystem_root \<Longrightarrow>
   joined = resolve_from root (rel_url_path req) \<Longrightarrow>
   startswith (path_str joined) (path_str root) \<Longrightarrow>
   (\<not> is_dir env joined \<and> joined = d @ [foo] \<and> foo \<noteq> [] \<and> suffix_of_name foo = [] \<and>
    exists env (d @ [foo @ ''.mml'']) \<and> exists env (d @ [foo @ ''.html'']) \<longrightarrow>
      handle_static_request env req filesystem_root listing_on w =
        serve_mml env (d @ [foo @ ''.mml'']) req w) \<and>
   (is_dir env joined \<and> exists env (joined @ [''index.mml'']) \<and>
    exists env (joined @ [''index.html'']) \<longrightarrow>
      handle_static_request env req filesystem_root listing_on w =
        serve_mml env (joined @ [''index.mml'']) req w) \<and>
   (\<not> exists env joined \<and> with_suffix joined ''.mml'' = Some p \<and>
    with_suffix joined ''.html'' = Some p' \<and> exists env p \<and> exists env p' \<longrightarrow>
      handle_static_request env req filesystem_root listing_on w = serve_mml env p req w)"
proof -
  assume r: "root = resolve_from (cwd env) filesystem_root"
    and j: "joined = resolve_from root (rel_url_path req)"
    and s: "startswith (path_str joined) (path_str root)"
  note inside = handle_inside [OF r j s, of listing_on w]
  have bare: "handle_static_request env req filesystem_root listing_on w =
        serve_mml env (d @ [foo @ ''.mml'']) req w"
    if h: "\<not> is_dir env joined \<and> joined = d @ [foo] \<and> foo \<noteq> [] \<and> suffix_of_name foo = [] \<and>
      exists env (d @ [foo @ ''.mml'']) \<and> exists env (d @ [foo @ ''.html''])"
  proof -
    from h have "index_probe env joined = Some (d @ [foo])"
      by (auto simp: index_probe_def)
    moreover from h have "bare_probe env (d @ [foo]) req w = serve_mml env (d @ [foo @ ''.mml'']) req w"
      by (intro bare_probe_mml) simp_all
    ultimately show ?thesis by (simp add: inside)
  qed
  have index: "handle_static_request env req filesystem_root listing_on w =
        serve_mml env (joined @ [''index.mml'']) req w"
    if h: "is_dir env joined \<and> exists env (joined @ [''index.mml'']) \<and>
      exists env (joined @ [''index.html''])"
  proof -
    from h have "index_probe env joined = Some (joined @ [''index.mml''])"
      by (simp add: index_probe_def)
    moreover from h have "bare_probe env (joined @ [''index.mml'']) req w =
        serve_mml env (joined @ [''index.mml'']) req w"
      by (intro bare_probe_index_mml) simp
    ultimately show ?thesis by (simp add: inside)
  qed
  have sibling: "handle_static_request env req filesystem_root listing_on w = serve_mml env p req w"
    if h: "\<not> exists env joined \<and> with_suffix joined ''.mml'' = Some p \<and>
      with_suffix joined ''.html'' = Some p' \<and> exists env p \<and> exists env p'"
  proof -
    from h have "\<not> is_dir env joined"
      by (auto simp: is_dir_def exists_def split: option.splits)
    then have "index_probe env joined = Some joined"
      by (simp add: index_probe_def)
    moreover from h have "bare_probe env joined req w = serve_mml env p req w"
      by (intro bare_probe_sibling [where p' = p']) simp_all
    ultimately show ?thesis by (simp add: inside)
  qed
  from bare index sibling show ?thesis by blast
qed

theorem mml_preferred_over_html_witness:
  "startswith (path_str [''srv'', ''www'', ''page'']) (path_str [''srv'', ''www'']) \<and>
   \<not> is_dir writing_env [''srv'', ''www'', ''page''] \<and>
   exists writing_env [''srv'', ''www'', ''page.mml''] \<and>
   exists writing_env [''srv'', ''www'', ''page.html''] \<and>
   handle_static_request writing_env (page_request None) ''/srv/www'' False world0 =
     serve_mml writing_env [''srv'', ''www'', ''page.mml''] (page_request None) world0 \<and>
   is_dir writing_env [''srv'', ''www'', ''docs''] \<and>
   exists writing_env [''srv'', ''www'', ''docs'', ''index.mml''] \<and>
   exists writing_env [''srv'', ''www'', ''docs'', ''index.html''] \<and>
   handle_static_request writing_env docs_request ''/srv/www'' False world0 =
     serve_mml writing_env [''srv'', ''www'', ''docs'', ''index.mml''] docs_request world0 \<and>
   \<not> exists writing_env [''srv'', ''www'', ''page.txt''] \<and>
   handle_static_request writing_env page_txt_request ''/srv/www'' False world0 =
     serve_mml writing_env [''srv'', ''www'', ''page.mml''] page_txt_request world0"
proof -
  have r: "[''srv'', ''www''] = resolve_from (cwd writing_env) ''/srv/www''"
    by code_simp
  have j1: "[''srv'', ''www'', ''page''] = resolve_from [''srv'', ''www''] (rel_url_path (page_request None))"
    by code_simp
  have j2: "[''srv'', ''www'', ''docs''] = resolve_from [''srv'', ''www''] (rel_url_path docs_request)"
    by code_simp
  have j3: "[''srv'', ''www'', ''page.txt''] = resolve_from [''srv'', ''www''] (rel_url_path page_txt_request)"
    by code_simp
  have s1: "startswith (path_str [''srv'', ''www'', ''page'']) (path_str [''srv'', ''www''])"
    by code_simp
  have s2: "startswith (path_str [''srv'', ''www'', ''docs'']) (path_str [''srv'', ''www''])"
    by code_simp
  have s3: "startswith (path_str [''srv'', ''www'', ''page.txt'']) (path_str [''srv'', ''www''])"
    by code_simp
  have h1: "\<not> is_dir writing_env [''srv'', ''www'', ''page''] \<and>
            [''srv'', ''www'', ''page''] = [''srv'', ''www''] @ [''page''] \<and> ''page'' \<noteq> [] \<and>
            suffix_of_name ''page'' = [] \<and>
            exists writing_env ([''srv'', ''www''] @ [''page'' @ ''.mml'']) \<and>
            exists writing_env ([''srv'', ''www''] @ [''page'' @ ''.html''])"
    by code_simp
  have h2: "is_dir writing_env [''srv'', ''www'', ''docs''] \<and>
            exists writing_env ([''srv'', ''www'', ''docs''] @ [''index.mml'']) \<and>
            exists writing_env ([''srv'', ''www'', ''docs''] @ [''index.html''])"
    by code_simp
  have h3: "\<not> exists writing_env [''srv'', ''www'', ''page.txt''] \<and>
            with_suffix [''srv'', ''www'', ''page.txt''] ''.mml'' = Some [''srv'', ''www'', ''page.mml''] \<and>
            with_suffix [''srv'', ''www'', ''page.txt''] ''.html'' = Some [''srv'', ''www'', ''page.html''] \<and>
            exists writing_env [''srv'', ''www'', ''page.mml''] \<and>
            exists writing_env [''srv'', ''www'', ''page.html'']"
    by code_simp
  have e1: "[''srv'', ''www''] @ [''page'' @ ''.mml''] = [''srv'', ''www'', ''page.mml'']"
    by simp
  have e2: "[''srv'', ''www'', ''docs''] @ [''index.mml''] = [''srv'', ''www'', ''docs'', ''index.mml'']"
    by simp
  have p1: "handle_static_request writing_env (page_request None) ''/srv/www'' False world0 =
     serve_mml writing_env [''srv'', ''www'', ''page.mml''] (page_request None) world0"
    using mml_preferred_over_html [OF r j1 s1, THEN conjunct1, THEN mp, OF h1, of False world0]
    unfolding e1 .
  have p2: "handle_static_request writing_env docs_request ''/srv/www'' False world0 =
     serve_mml writing_env [''srv'', ''www'', ''docs'', ''index.mml''] docs_request world0"
    using mml_preferred_over_html [OF r j2 s2, THEN conjunct2, THEN conjunct1, THEN mp, OF h2,
        of False world0]
    unfolding e2 .
  have p3: "handle_static_request writing_env page_txt_request ''/srv/www'' False world0 =
     serve_mml writing_env [''srv'', ''www'', ''page.mml''] page_txt_request world0"
    using mml_preferred_over_html [OF r j3 s3, THEN conjunct2, THEN conjunct2, THEN mp, OF h3,
        of False world0] .
  from h1 have a: "\<not> is_dir writing_env [''srv'', ''www'', ''page'']" ..
  from h3 have b: "\<not> exists writing_env [''srv'', ''www'', ''page.txt'']" ..
  from h3 have c: "exists writing_env [''srv'', ''www'', ''page.mml''] \<and>
            exists writing_env [''srv'', ''www'', ''page.html'']"
    by (elim conjE) (intro conjI)
  from h2 have d: "is_dir writing_env [''srv'', ''www'', ''docs''] \<and>
            exists writing_env [''srv'', ''www'', ''docs'', ''index.mml''] \<and>
            exists writing_env [''srv'', ''www'', ''docs'', ''index.html'']"
    by simp
  from s1 a c d b p1 p2 p3 show ?thesis
    by (elim conjE) (intro conjI)
qed

text \<open>
  Claim C3 as stated fails when a directory \<^verbatim>\<open>foo\<close> stands next to \<^verbatim>\<open>foo.mml\<close> and
  \<^verbatim>\<open>foo.html\<close>: the request for \<^verbatim>\<open>/foo\<close> is answered by the directory branch, here
  with 404, and not with the document \<^verbatim>\<open>_serve_mml\<close> makes of \<^verbatim>\<open>foo.mml\<close>.
\<close>

theorem directory_shadows_mml:
  "exists writing_env [''srv'', ''www'', ''foo.mml''] \<and>
   exists writing_env [''srv'', ''www'', ''foo.html''] \<and>
   suffix_of_name ''foo'' = [] \<and>
   rel_url_path foo_request = ''foo'' \<and>
   fst (handle_static_request writing_env foo_request ''/srv/www'' False world0) = Inr not_found \<and>
   fst (serve_mml writing_env [''srv'', ''www'', ''foo.mml''] foo_request world0) =
     Inr \<lparr>status = 200,
          headers = [(''Content-Type'', ''text/html; charset=utf-8''),
                     (''ETag'', ''000000000000000000000000000000000000000b''),
                     (''Cache-Control'', ''no-cache''),
                     (''Last-Modified'', ''Fri, 02 Jan 1970 00:00:00 GMT'')],
          payload = Body ''<h1>hi</h1>'', content_type = None\<rparr>"
  by code_simp

text \<open>
  Claim C5. \<^verbatim>\<open>_serve_file\<close> and \<^verbatim>\<open>_serve_mml\<close> answer 304 without a body exactly when
  \<^verbatim>\<open>If-None-Match\<close> is the ETag computed from the body, and 200 with the body for
  every other value of the header; both responses carry the same headers. For the
  handler as a whole: when the plain request is answered 200 with an ETag, the same
  request with that ETag in \<^verbatim>\<open>If-None-Match\<close> is answered 304 with the same headers
  and no body, and when the plain request is answered so in every world, the
  conditional request repeated \<open>n\<close> times is answered so \<open>n\<close> times.
\<close>

theorem conditional_get_not_modified:
  "(fs env p = Some (File body) \<longrightarrow>
      serve_file env p req =
        Inr (if if_none_match req = Some (compute_etag_bytes (sha1 env) body)
             then \<lparr>status = 304,
                   headers = file_headers (guess_mime_type (guess_type env) (path_str p))
                               (compute_etag_bytes (sha1 env) body),
                   payload = NoBody, content_type = None\<rparr>
             else \<lparr>status = 200,
                   headers = file_headers (guess_mime_type (guess_type env) (path_str p))
                               (compute_etag_bytes (sha1 env) body),
                   payload = Body body, content_type = None\<rparr>)) \<and>
   (fst (convert_mml_file_to_html_string env (path_str q) w) = Inr (Some html) \<longrightarrow>
      fst (serve_mml env q req w) =
        Inr (if if_none_match req = Some (compute_etag_bytes (sha1 env) (encode_utf8 html))
             then \<lparr>status = 304,
                   headers = mml_headers env q (compute_etag_bytes (sha1 env) (encode_utf8 html)),
                   payload = NoBody, content_type = None\<rparr>
             else \<lparr>status = 200,
                   headers = mml_headers env q (compute_etag_bytes (sha1 env) (encode_utf8 html)),
                   payload = Body (encode_utf8 html), content_type = None\<rparr>)) \<and>
   (fst (handle_static_request env (req\<lparr>if_none_match := None\<rparr>) filesystem_root listing_on w) = Inr r \<and>
    status r = 200 \<and> map_of (headers r) ''ETag'' = Some etag \<longrightarrow>
      fst (handle_static_request env (req\<lparr>if_none_match := Some etag\<rparr>) filesystem_root listing_on w) =
        Inr (r\<lparr>status := 304, payload := NoBody\<rparr>)) \<and>
   ((\<forall>w'. fst (handle_static_request env (req\<lparr>if_none_match := None\<rparr>) filesystem_root listing_on w') = Inr r) \<and>
    status r = 200 \<and> map_of (headers r) ''ETag'' = Some etag \<longrightarrow>
      repeat_request n env (req\<lparr>if_none_match := Some etag\<rparr>) filesystem_root listing_on w =
        replicate n (Inr (r\<lparr>status := 304, payload := NoBody\<rparr>)))"
proof (intro conjI impI)
  assume "fs env p = Some (File body)"
  then show "serve_file env p req =
        Inr (if if_none_match req = Some (compute_etag_bytes (sha1 env) body)
             then \<lparr>status = 304,
                   headers = file_headers (guess_mime_type (guess_type env) (path_str p))
                               (compute_etag_bytes (sha1 env) body),
                   payload = NoBody, content_type = None\<rparr>
             else \<lparr>status = 200,
                   headers = file_headers (guess_mime_type (guess_type env) (path_str p))
                               (compute_etag_bytes (sha1 env) body),
                   payload = Body body, content_type = None\<rparr>)"
    by (simp add: serve_file_cases)
next
  assume "fst (convert_mml_file_to_html_string env (path_str q) w) = Inr (Some html)"
  then show "fst (serve_mml env q req w) =
        Inr (if if_none_match req = Some (compute_etag_bytes (sha1 env) (encode_utf8 html))
             then \<lparr>status = 304,
                   headers = mml_headers env q (compute_etag_bytes (sha1 env) (encode_utf8 html)),
                   payload = NoBody, content_type = None\<rparr>
             else \<lparr>status = 200,
                   headers = mml_headers env q (compute_etag_bytes (sha1 env) (encode_utf8 html)),
                   payload = Body (encode_utf8 html), content_type = None\<rparr>)"
    by (simp add: serve_mml_cases compute_etag_bytes_nonempty)
next
  assume "fst (handle_static_request env (req\<lparr>if_none_match := None\<rparr>) filesystem_root listing_on w) = Inr r \<and>
    status r = 200 \<and> map_of (headers r) ''ETag'' = Some etag"
  then show "fst (handle_static_request env (req\<lparr>if_none_match := Some etag\<rparr>) filesystem_root listing_on w) =
        Inr (r\<lparr>status := 304, payload := NoBody\<rparr>)"
    by (intro handle_conditional) auto
next
  assume "(\<forall>w'. fst (handle_static_request env (req\<lparr>if_none_match := None\<rparr>) filesystem_root listing_on w') = Inr r) \<and>
    status r = 200 \<and> map_of (headers r) ''ETag'' = Some etag"
  then show "repeat_request n env (req\<lparr>if_none_match := Some etag\<rparr>) filesystem_root listing_on w =
        replicate n (Inr (r\<lparr>status := 304, payload := NoBody\<rparr>))"
    by (intro repeat_conditional) auto
qed

theorem conditional_get_not_modified_witness:
  "fs writing_env [''srv'', ''www'', ''notes.txt''] = Some (File ''notes'') \<and>
   serve_file writing_env [''srv'', ''www'', ''notes.txt'']
       (notes_request (Some ''0000000000000000000000000000000000000005'')) =
     Inr (notes_200\<lparr>status := 304, payload := NoBody\<rparr>) \<and>
   serve_file writing_env [''srv'', ''www'', ''notes.txt''] (notes_request (Some ''*'')) =
     Inr notes_200 \<and>
   fst (convert_mml_file_to_html_string writing_env
          (path_str [''srv'', ''www'', ''page.mml'']) world0) = Inr (Some ''<h1>hi</h1>'') \<and>
   fst (serve_mml writing_env [''srv'', ''www'', ''page.mml'']
          (page_request (Some ''000000000000000000000000000000000000000b'')) world0) =
     Inr (page_200\<lparr>status := 304, payload := NoBody\<rparr>) \<and>
   (\<forall>w'. fst (handle_static_request writing_env ((page_request None)\<lparr>if_none_match := None\<rparr>)
                ''/srv/www'' False w') = Inr page_200) \<and>
   fst (handle_static_request writing_env
          ((page_request None)\<lparr>if_none_match := Some ''000000000000000000000000000000000000000b''\<rparr>)
          ''/srv/www'' False world0) =
     Inr (page_200\<lparr>status := 304, payload := NoBody\<rparr>) \<and>
   repeat_request 3 writing_env
       ((page_request None)\<lparr>if_none_match := Some ''000000000000000000000000000000000000000b''\<rparr>)
       ''/srv/www'' False world0 =
     replicate 3 (Inr (page_200\<lparr>status := 304, payload := NoBody\<rparr>))"
proof -
  note cg = conditional_get_not_modified
  have f: "fs writing_env [''srv'', ''www'', ''notes.txt''] = Some (File ''notes'')"
    by code_simp
  have k1: "(if if_none_match (notes_request (Some ''0000000000000000000000000000000000000005'')) =
               Some (compute_etag_bytes (sha1 writing_env) ''notes'')
            then \<lparr>status = 304,
                  headers = file_headers
                    (guess_mime_type (guess_type writing_env) (path_str [''srv'', ''www'', ''notes.txt'']))
                    (compute_etag_bytes (sha1 writing_env) ''notes''),
                  payload = NoBody, content_type = None\<rparr>
            else \<lparr>status = 200,
                  headers = file_headers
                    (guess_mime_type (guess_type writing_env) (path_str [''srv'', ''www'', ''notes.txt'']))
                    (compute_etag_bytes (sha1 writing_env) ''notes''),
                  payload = Body ''notes'', content_type = None\<rparr>) =
           notes_200\<lparr>status := 304, payload := NoBody\<rparr>"
    by code_simp
  have k2: "(if if_none_match (notes_request (Some ''*'')) =
               Some (compute_etag_bytes (sha1 writing_env) ''notes'')
            then \<lparr>status = 304,
                  headers = file_headers
                    (guess_mime_type (guess_type writing_env) (path_str [''srv'', ''www'', ''notes.txt'']))
                    (compute_etag_bytes (sha1 writing_env) ''notes''),
                  payload = NoBody, content_type = None\<rparr>
            else \<lparr>status = 200,
                  headers = file_headers
                    (guess_mime_type (guess_type writing_env) (path_str [''srv'', ''www'', ''notes.txt'']))
                    (compute_etag_bytes (sha1 writing_env) ''notes''),
                  payload = Body ''notes'', content_type = None\<rparr>) =
           notes_200"
    by code_simp
  have a1: "serve_file writing_env [''srv'', ''www'', ''notes.txt'']
       (notes_request (Some ''0000000000000000000000000000000000000005'')) =
     Inr (notes_200\<lparr>status := 304, payload := NoBody\<rparr>)"
    using cg [THEN conjunct1, THEN mp, OF f,
        of "notes_request (Some ''0000000000000000000000000000000000000005'')"]
    unfolding k1 .
  have a2: "serve_file writing_env [''srv'', ''www'', ''notes.txt''] (notes_request (Some ''*'')) =
     Inr notes_200"
    using cg [THEN conjunct1, THEN mp, OF f, of "notes_request (Some ''*'')"]
    unfolding k2 .
  have c: "fst (convert_mml_file_to_html_string writing_env
          (path_str [''srv'', ''www'', ''page.mml'']) world0) = Inr (Some ''<h1>hi</h1>'')"
    by code_simp
  have k3: "(if if_none_match (page_request (Some ''000000000000000000000000000000000000000b'')) =
               Some (compute_etag_bytes (sha1 writing_env) (encode_utf8 ''<h1>hi</h1>''))
            then \<lparr>status = 304,
                  headers = mml_headers writing_env [''srv'', ''www'', ''page.mml'']
                    (compute_etag_bytes (sha1 writing_env) (encode_utf8 ''<h1>hi</h1>'')),
                  payload = NoBody, content_type = None\<rparr>
            else \<lparr>status = 200,
                  headers = mml_headers writing_env [''srv'', ''www'', ''page.mml'']
                    (compute_etag_bytes (sha1 writing_env) (encode_utf8 ''<h1>hi</h1>'')),
                  payload = Body (encode_utf8 ''<h1>hi</h1>''), content_type = None\<rparr>) =
           page_200\<lparr>status := 304, payload := NoBody\<rparr>"
    by code_simp
  have b: "fst (serve_mml writing_env [''srv'', ''www'', ''page.mml'']
          (page_request (Some ''000000000000000000000000000000000000000b'')) world0) =
     Inr (page_200\<lparr>status := 304, payload := NoBody\<rparr>)"
    using cg [THEN conjunct2, THEN conjunct1, THEN mp, OF c,
        of "page_request (Some ''000000000000000000000000000000000000000b'')"]
    unfolding k3 .
  have g: "\<forall>w'. fst (handle_static_request writing_env ((page_request None)\<lparr>if_none_match := None\<rparr>)
                ''/srv/www'' False w') = Inr page_200"
    by (simp only: page_plain_any_world) simp
  have st: "status page_200 = 200 \<and>
            map_of (headers page_200) ''ETag'' = Some ''000000000000000000000000000000000000000b''"
    by code_simp
  from g have g0: "fst (handle_static_request writing_env ((page_request None)\<lparr>if_none_match := None\<rparr>)
                ''/srv/www'' False world0) = Inr page_200" ..
  have d: "fst (handle_static_request writing_env
          ((page_request None)\<lparr>if_none_match := Some ''000000000000000000000000000000000000000b''\<rparr>)
          ''/srv/www'' False world0) =
     Inr (page_200\<lparr>status := 304, payload := NoBody\<rparr>)"
    by (rule cg [THEN conjunct2, THEN conjunct2, THEN conjunct1, THEN mp, OF conjI [OF g0 st]])
  have e: "repeat_request 3 writing_env
       ((page_request None)\<lparr>if_none_match := Some ''000000000000000000000000000000000000000b''\<rparr>)
       ''/srv/www'' False world0 =
     replicate 3 (Inr (page_200\<lparr>status := 304, payload := NoBody\<rparr>))"
    by (rule cg [THEN conjunct2, THEN conjunct2, THEN conjunct2, THEN mp, OF conjI [OF g st]])
  from f a1 a2 c b g d e show ?thesis
    by (intro conjI)
qed

text \<open>
  Claim C8. A response 200 of \<^verbatim>\<open>_serve_mml\<close> carries the content type
  \<^verbatim>\<open>text/html; charset=utf-8\<close>, \<^verbatim>\<open>Cache-Control: no-cache\<close> and a \<^verbatim>\<open>Last-Modified\<close>
  that formats the modification time of the MML file, or the current time when the
  modification time cannot be read. A response 200 of \<^verbatim>\<open>_serve_file\<close> carries the
  content type guessed from the name of the file and
  \<^verbatim>\<open>Cache-Control: public, max-age=60\<close>.
\<close>

theorem response_headers:
  "(fst (serve_mml env q req w) = Inr r \<and> status r = 200 \<longrightarrow>
      map_of (headers r) ''Content-Type'' = Some ''text/html; charset=utf-8'' \<and>
      map_of (headers r) ''Cache-Control'' = Some ''no-cache'' \<and>
      map_of (headers r) ''Last-Modified'' =
        Some (strftime env (case getmtime env q of Some t \<Rightarrow> t | None \<Rightarrow> now env))) \<and>
   (serve_file env p req = Inr r' \<and> status r' = 200 \<longrightarrow>
      map_of (headers r') ''Content-Type'' = Some (guess_mime_type (guess_type env) (path_str p)) \<and>
      map_of (headers r') ''Cache-Control'' = Some ''public, max-age=60'')"
  by (auto simp: serve_mml_cases serve_file_cases mml_headers_def file_headers_def file_mtime_def
        conversion_failed_def split: sum.splits option.splits node.splits if_splits)

theorem response_headers_witness:
  "fst (serve_mml writing_env [''srv'', ''www'', ''page.mml''] (page_request None) world0) =
     Inr page_200 \<and>
   status page_200 = 200 \<and>
   getmtime writing_env [''srv'', ''www'', ''page.mml''] = Some 0 \<and>
   map_of (headers page_200) ''Content-Type'' = Some ''text/html; charset=utf-8'' \<and>
   map_of (headers page_200) ''Cache-Control'' = Some ''no-cache'' \<and>
   map_of (headers page_200) ''Last-Modified'' = Some (strftime writing_env 0) \<and>
   serve_file writing_env [''srv'', ''www'', ''notes.txt''] (notes_request None) = Inr notes_200 \<and>
   status notes_200 = 200 \<and>
   map_of (headers notes_200) ''Content-Type'' = Some ''text/plain'' \<and>
   map_of (headers notes_200) ''Cache-Control'' = Some ''public, max-age=60''"
proof -
  have a: "fst (serve_mml writing_env [''srv'', ''www'', ''page.mml''] (page_request None) world0) =
     Inr page_200 \<and> status page_200 = 200"
    by code_simp
  have b: "serve_file writing_env [''srv'', ''www'', ''notes.txt''] (notes_request None) =
     Inr notes_200 \<and> status notes_200 = 200"
    by code_simp
  have m: "getmtime writing_env [''srv'', ''www'', ''page.mml''] = Some 0"
    by code_simp
  have t: "guess_mime_type (guess_type writing_env) (path_str [''srv'', ''www'', ''notes.txt'']) =
     ''text/plain''"
    by code_simp
  from response_headers [THEN conjunct1, THEN mp, OF a]
  have c: "map_of (headers page_200) ''Content-Type'' = Some ''text/html; charset=utf-8'' \<and>
      map_of (headers page_200) ''Cache-Control'' = Some ''no-cache'' \<and>
      map_of (headers page_200) ''Last-Modified'' = Some (strftime writing_env 0)"
    unfolding m option.case .
  from response_headers [THEN conjunct2, THEN mp, OF b]
  have d: "map_of (headers notes_200) ''Content-Type'' = Some ''text/plain'' \<and>
      map_of (headers notes_200) ''Cache-Control'' = Some ''public, max-age=60''"
    unfolding t .
  from a m c b d show ?thesis
    by (elim conjE) (intro conjI)
qed

end
